theory Spec2Isabelle
  imports Complex_Main "HOL-Library.Word" "HOL-Library.Multiset"
begin

section \<open>JavaScript strings and values\<close>

text \<open>
  A JavaScript string is a sequence of UTF-16 code units. String literals of the source
  are written with \<open>js\<close>; text outside ASCII is given by its code units.
\<close>

type_synonym js_string = "16 word list"

definition js :: "string \<Rightarrow> js_string" where
  "js s = map (\<lambda>c. word_of_nat (of_char c)) s"

text \<open>\<open>String.prototype.startsWith\<close> and \<open>String.prototype.includes\<close>.\<close>

fun js_startsWith :: "js_string \<Rightarrow> js_string \<Rightarrow> bool" where
  "js_startsWith s [] = True"
| "js_startsWith [] (p # ps) = False"
| "js_startsWith (c # cs) (p # ps) = (c = p \<and> js_startsWith cs ps)"

fun js_includes :: "js_string \<Rightarrow> js_string \<Rightarrow> bool" where
  "js_includes [] p = (p = [])"
| "js_includes (c # cs) p = (js_startsWith (c # cs) p \<or> js_includes cs p)"

text \<open>
  The white space of \<open>String.prototype.trim\<close> and of the regular expression class
  \<open>\s\<close>: the code points of WhiteSpace and LineTerminator.
\<close>

definition isWhiteSpace :: "16 word \<Rightarrow> bool" where
  "isWhiteSpace c =
     (c = 0x09 \<or> c = 0x0A \<or> c = 0x0B \<or> c = 0x0C \<or> c = 0x0D \<or> c = 0x20 \<or> c = 0xA0 \<or>
      c = 0x1680 \<or> (0x2000 \<le> c \<and> c \<le> 0x200A) \<or> c = 0x2028 \<or> c = 0x2029 \<or>
      c = 0x202F \<or> c = 0x205F \<or> c = 0x3000 \<or> c = 0xFEFF)"

definition js_trim :: "js_string \<Rightarrow> js_string" where
  "js_trim s = rev (dropWhile isWhiteSpace (rev (dropWhile isWhiteSpace s)))"

text \<open>\<open>String.prototype.slice\<close> and \<open>charAt\<close>, for the index ranges the source uses.\<close>

definition js_slice :: "js_string \<Rightarrow> nat \<Rightarrow> nat \<Rightarrow> js_string" where
  "js_slice s a b = take (b - a) (drop a s)"

definition charAt :: "js_string \<Rightarrow> int \<Rightarrow> js_string" where
  "charAt s i = (if 0 \<le> i \<and> i < int (length s) then [s ! nat i] else [])"

text \<open>\<open>Number.prototype.toString\<close> of a non-negative integer (decimal digits).\<close>

fun nat_toString :: "nat \<Rightarrow> js_string" where
  "nat_toString n =
     (if n < 10 then [word_of_nat (48 + n)]
      else nat_toString (n div 10) @ [word_of_nat (48 + n mod 10)])"

declare nat_toString.simps [simp del]

text \<open>
  The values the source tests for truthiness or compares with \<open>===\<close>: request fields
  (\<open>stream\<close>, \<open>max_tokens\<close>, \<open>temperature\<close>, \<open>model\<close>) and the \<open>code\<close> and \<open>status\<close>
  properties of a thrown error.
\<close>

datatype js_val = JUndefined | JNull | JBool bool | JNum real | JNaN | JStr js_string

fun truthy :: "js_val \<Rightarrow> bool" where
  "truthy JUndefined = False"
| "truthy JNull = False"
| "truthy (JBool b) = b"
| "truthy (JNum r) = (r \<noteq> 0)"
| "truthy JNaN = False"
| "truthy (JStr s) = (s \<noteq> [])"

text \<open>\<open>a || b\<close> and \<open>v === n\<close> for a number literal \<open>n\<close>.\<close>

definition js_or :: "js_val \<Rightarrow> js_val \<Rightarrow> js_val" where
  "js_or a b = (if truthy a then a else b)"

definition strict_eq_num :: "js_val \<Rightarrow> real \<Rightarrow> bool" where
  "strict_eq_num v n = (v = JNum n)"

section \<open>Errors (lib/config.ts)\<close>

definition msg_401 :: js_string where
  "msg_401 = [0x4F60, 0x8FD9, 0x8C03, 0x7528, 0x5BC6, 0x94A5, 0x4E0D, 0x5BF9, 0xFF0C, 0x6211,
     0x5F88, 0x96BE, 0x5E2E, 0x4F60, 0x529E, 0x4E8B, 0x554A, 0x7E]"

definition msg_429 :: js_string where
  "msg_429 = [0x60A8, 0x5DF2, 0x89E6, 0x53D1, 0x22, 0x6FC0, 0x60C5, 0x8C03, 0x7528, 0x22,
     0x6A21, 0x5F0F, 0xFF0C, 0x8BF7, 0x51B7, 0x9759, 0x3002, 0x6211, 0x4EEC, 0x5DF2, 0x4E3A,
     0x60A8, 0x542F, 0x52A8, 0x5F3A, 0x5236, 0x51B7, 0x5374, 0x7CFB, 0x7EDF, 0xFF0C, 0x7A0D,
     0x540E, 0x518D, 0x8BD5, 0x3002]"

definition msg_500 :: js_string where
  "msg_500 = [0x8981, 0x4E48, 0x662F, 0x4F60, 0x7F51, 0x7EDC, 0x95EE, 0x9898, 0xFF0C, 0x8981,
     0x4E48, 0x662F, 0x4F60, 0x53D1, 0x7684, 0x8BF7, 0x6C42, 0x6709, 0x95EE, 0x9898, 0xFF0C,
     0x53CD, 0x6B63, 0x47, 0x6F, 0x6F, 0x67, 0x6C, 0x65, 0x4E0D, 0x7406, 0x4F60, 0x54AF]"

definition msg_503 :: js_string where
  "msg_503 = [0x5F39, 0x5C3D, 0x7CAE, 0x7EDD, 0xFF01, 0x6211, 0x4EEC, 0x6240, 0x6709, 0x7684,
     0x47, 0x65, 0x6D, 0x69, 0x6E, 0x69, 0x20, 0x4B, 0x65, 0x79, 0x90FD, 0x5728, 0x4F11, 0x606F,
     0x6216, 0x5DF2, 0x88AB, 0x5C01, 0x5370, 0x3002, 0x7B49, 0x5237, 0x65B0, 0x989D, 0x5EA6,
     0x5427, 0xFF01, 0x35, 0x35, 0x35, 0x7E]"

definition msg_400 :: js_string where
  "msg_400 = [0x8BF7, 0x6C42, 0x53C2, 0x6570, 0x597D, 0x50CF, 0x4E0D, 0x592A, 0x5BF9, 0x52B2,
     0xFF0C, 0x518D, 0x770B, 0x4E00, 0x773C, 0xFF0C, 0x4E0D, 0x884C, 0xFF0C, 0x41, 0x49, 0x771F,
     0x770B, 0x4E0D, 0x61C2]"

definition msg_403 :: js_string where
  "msg_403 = [0x4F60, 0x63D0, 0x4F9B, 0x7684, 0x67D0, 0x4E2A, 0x47, 0x65, 0x6D, 0x69, 0x6E,
     0x69, 0x20, 0x4B, 0x65, 0x79, 0x88AB, 0x47, 0x6F, 0x6F, 0x67, 0x6C, 0x65, 0x5C01, 0x5370,
     0x4E86, 0xFF0C, 0x5B83, 0x73B0, 0x5728, 0x53EA, 0x662F, 0x4E00, 0x4E32, 0x65E0, 0x7528,
     0x7684, 0x5B57, 0x7B26, 0x3002, 0x5FEB, 0x53BB, 0x540E, 0x53F0, 0x68C0, 0x67E5, 0x4E00,
     0x4E0B, 0x5427, 0xFF01]"

text \<open>\<open>ERROR_MESSAGES\<close>: status code to (type, message).\<close>

definition ERROR_MESSAGES :: "int \<Rightarrow> (js_string \<times> js_string) option" where
  "ERROR_MESSAGES statusCode =
     (if statusCode = 401 then Some (js ''invalid_api_key'', msg_401)
      else if statusCode = 429 then Some (js ''rate_limit_exceeded'', msg_429)
      else if statusCode = 500 then Some (js ''internal_error'', msg_500)
      else if statusCode = 503 then Some (js ''no_available_keys'', msg_503)
      else if statusCode = 400 then Some (js ''invalid_request_body'', msg_400)
      else if statusCode = 403 then Some (js ''gemini_api_key_invalid'', msg_403)
      else None)"

text \<open>
  What a \<open>catch\<close> clause can receive: \<open>null\<close> or \<open>undefined\<close>; any other primitive
  value (a string, a number, a boolean, a bigint or a symbol), given by whether it is
  truthy and by the result of its \<open>toString()\<close>, since it has no \<open>message\<close>, \<open>code\<close> or
  \<open>status\<close>; an instance of the repository's \<open>ApiError\<close> (fields \<open>statusCode\<close>,
  \<open>message\<close>, \<open>type\<close>; it has neither \<open>code\<close> nor \<open>status\<close>); or any other object,
  given by its \<open>message\<close> (empty when absent), the result of its \<open>toString()\<close>, and its
  \<open>code\<close> and \<open>status\<close> properties.
\<close>

datatype thrown =
    Nullish
  | Primitive (prim_truthy: bool) (prim_toString: js_string)
  | ApiError (statusCode: int) (api_message: js_string) (api_type: js_string)
  | JsError (err_message: js_string) (err_toString: js_string) (err_code: js_val) (err_status: js_val)

text \<open>\<open>new ApiError(statusCode, message?)\<close>; an omitted message is the empty string.\<close>

definition newApiError :: "int \<Rightarrow> js_string \<Rightarrow> thrown" where
  "newApiError sc msg =
     (let errorConfig = ERROR_MESSAGES sc in
      ApiError sc
        (if msg \<noteq> [] then msg
         else case errorConfig of
                Some (t, m) \<Rightarrow> m
              | None \<Rightarrow> js ''Unknown error'')
        (case errorConfig of
           Some (t, m) \<Rightarrow> t
         | None \<Rightarrow> js ''unknown_error''))"

text \<open>\<open>new Error(message)\<close>.\<close>

definition newError :: "js_string \<Rightarrow> thrown" where
  "newError msg = JsError msg (if msg = [] then js ''Error'' else js ''Error: '' @ msg) JUndefined JUndefined"

text \<open>\<open>!error\<close>: the falsy values are \<open>null\<close>, \<open>undefined\<close> and the falsy primitives.\<close>

fun isFalsy :: "thrown \<Rightarrow> bool" where
  "isFalsy Nullish = True"
| "isFalsy (Primitive t ts) = (\<not> t)"
| "isFalsy (ApiError sc m t) = False"
| "isFalsy (JsError m ts c s) = False"

text \<open>Property reads on a thrown value.\<close>

fun prop_message :: "thrown \<Rightarrow> js_string" where
  "prop_message Nullish = []"
| "prop_message (Primitive t ts) = []"
| "prop_message (ApiError sc m t) = m"
| "prop_message (JsError m ts c s) = m"

fun call_toString :: "thrown \<Rightarrow> js_string" where
  "call_toString Nullish = []"
| "call_toString (Primitive t ts) = ts"
| "call_toString (ApiError sc m t) = (if m = [] then js ''ApiError'' else js ''ApiError: '' @ m)"
| "call_toString (JsError m ts c s) = ts"

fun prop_code :: "thrown \<Rightarrow> js_val" where
  "prop_code (JsError m ts c s) = c"
| "prop_code _ = JUndefined"

fun prop_status :: "thrown \<Rightarrow> js_val" where
  "prop_status (JsError m ts c s) = s"
| "prop_status _ = JUndefined"

text \<open>\<open>error?.message || error?.toString() || ''\<close>, the handlers' \<open>errorMsg\<close>.\<close>

definition errorMsgOf :: "thrown \<Rightarrow> js_string" where
  "errorMsgOf error =
     (if prop_message error \<noteq> [] then prop_message error
      else if call_toString error \<noteq> [] then call_toString error
      else [])"

section \<open>Retryability (isRetryableError)\<close>

text \<open>\<open>error.message || error.toString()\<close> and \<open>error.code || error.status\<close>.\<close>

definition retryMessage :: "thrown \<Rightarrow> js_string" where
  "retryMessage error = (if prop_message error \<noteq> [] then prop_message error else call_toString error)"

definition retryCode :: "thrown \<Rightarrow> js_val" where
  "retryCode error = js_or (prop_code error) (prop_status error)"

definition isRetryableError :: "thrown \<Rightarrow> bool" where
  "isRetryableError error =
     (if isFalsy error then False
      else
        let errorMessage = retryMessage error;
            errorCode = retryCode error
        in if strict_eq_num errorCode 401 then False
           else if strict_eq_num errorCode 403 \<and> \<not> js_includes errorMessage (js ''API key'')
                   \<and> \<not> js_includes errorMessage (js ''API_KEY'') then False
           else True)"

text \<open>The status code written to the call log for a failed attempt.\<close>

definition failureStatusCode :: "js_string \<Rightarrow> int" where
  "failureStatusCode errorMsg =
     (if js_includes errorMsg (js ''quota'') then 429
      else if js_includes errorMsg (js ''API_KEY_INVALID'') then 401
      else if js_includes errorMsg (js ''Not Found'') then 404
      else 500)"

text \<open>The test that decides whether a retryable failure also marks the key invalid.\<close>

definition isKeyInvalidMessage :: "js_string \<Rightarrow> bool" where
  "isKeyInvalidMessage errorMsg =
     (js_includes errorMsg (js ''API_KEY_INVALID'') \<or> js_includes errorMsg (js ''Invalid API key'')
      \<or> js_includes errorMsg (js ''API key not valid''))"

section \<open>Strategy selection (completions-edge.ts)\<close>

record StreamingConfig =
  enabled :: bool
  fake_stream_enabled :: bool

datatype strategy = RealStream | FakeStream | NonStream

text \<open>The branch taken inside the polling loop of the current edge handler.\<close>

definition selectStrategy :: "bool \<Rightarrow> StreamingConfig \<Rightarrow> strategy" where
  "selectStrategy isStream streamingConfig =
     (if isStream then
        (if enabled streamingConfig \<and> \<not> fake_stream_enabled streamingConfig then RealStream
         else if \<not> enabled streamingConfig \<and> fake_stream_enabled streamingConfig then FakeStream
         else if \<not> enabled streamingConfig \<and> \<not> fake_stream_enabled streamingConfig then NonStream
         else RealStream)
      else NonStream)"

section \<open>Request conversion (lib/converter.ts, lib/settings-manager.ts)\<close>

record Message =
  role :: js_string
  content :: js_string

text \<open>
  The request body. \<open>model\<close> is the empty string when absent; \<open>messages\<close> is an array of
  messages whose \<open>content\<close> is a string.
\<close>

record OpenAIRequest =
  model :: js_string
  messages :: "Message list"
  stream :: js_val
  max_tokens :: js_val
  temperature :: js_val

text \<open>One entry of \<open>contents\<close>: \<open>{role, parts: [{text}]}\<close>.\<close>

record GeminiContent =
  gemini_role :: js_string
  gemini_text :: js_string

record GeminiRequest =
  contents :: "GeminiContent list"
  maxOutputTokens :: js_val
  generation_temperature :: js_val

definition disguise_chars :: js_string where
  "disguise_chars = js ''ABCDEFGHIJKLMNOPQRSTUVWXYZabcdefghijklmnopqrstuvwxyz0123456789''"

text \<open>
  \<open>generateDisguiseString\<close>. \<open>rand i\<close> is the value of
  \<open>Math.floor(Math.random() * chars.length)\<close> in iteration \<open>i\<close> of the loop.
\<close>

definition generateDisguiseString :: "(nat \<Rightarrow> int) \<Rightarrow> js_string" where
  "generateDisguiseString rand =
     fold (\<lambda>i result. result @ charAt disguise_chars (rand i)) [0..<6] []"

text \<open>\<open>Array.prototype.findIndex\<close>: the first index whose element satisfies \<open>p\<close>, or -1.\<close>

fun findIndex :: "('a \<Rightarrow> bool) \<Rightarrow> 'a list \<Rightarrow> int" where
  "findIndex p [] = -1"
| "findIndex p (x # xs) =
     (if p x then 0 else (let i = findIndex p xs in if i < 0 then -1 else i + 1))"

text \<open>
  The callback of \<open>messages.map\<close>; \<open>None\<close> is the \<open>null\<close> that \<open>filter(Boolean)\<close> drops.
  \<open>disguiseEnabled\<close> is what \<open>getDisguiseEnabled()\<close> answered.
\<close>

definition convertMessage :: "bool \<Rightarrow> (nat \<Rightarrow> int) \<Rightarrow> int \<Rightarrow> Message \<Rightarrow> int \<Rightarrow> GeminiContent option" where
  "convertMessage disguiseEnabled rand firstUserMessageIndex msg index =
     (let content0 =
            (if disguiseEnabled \<and> role msg = js ''user'' \<and> index = firstUserMessageIndex
             then content msg @ js '' ['' @ generateDisguiseString rand @ js '']''
             else content msg)
      in if role msg = js ''system''
         then Some \<lparr>gemini_role = js ''user'', gemini_text = js ''System: '' @ content0\<rparr>
         else if role msg = js ''user''
         then Some \<lparr>gemini_role = js ''user'', gemini_text = content0\<rparr>
         else if role msg = js ''assistant''
         then Some \<lparr>gemini_role = js ''model'', gemini_text = content0\<rparr>
         else None)"

definition convertOpenAItoGemini :: "bool \<Rightarrow> (nat \<Rightarrow> int) \<Rightarrow> OpenAIRequest \<Rightarrow> GeminiRequest" where
  "convertOpenAItoGemini disguiseEnabled rand openaiRequest =
     (let firstUserMessageIndex = findIndex (\<lambda>m. role m = js ''user'') (messages openaiRequest);
          mapped = map (\<lambda>(index, msg). convertMessage disguiseEnabled rand firstUserMessageIndex msg (int index))
                     (List.enumerate 0 (messages openaiRequest))
      in \<lparr>contents = List.map_filter (\<lambda>c. c) mapped,
          maxOutputTokens = js_or (max_tokens openaiRequest) (JNum 2048),
          generation_temperature = js_or (temperature openaiRequest) (JNum 0.7)\<rparr>)"

text \<open>
  The edge handler, before converting, appends a request tag to the last message when its
  role is \<open>user\<close>. \<open>stamp\<close> stands for
  \<open>${Date.now()}_${Math.random().toString(36).substr(2, 9)}\<close>.
\<close>

definition requestTag :: "js_string \<Rightarrow> js_string" where
  "requestTag stamp = [0x0A] @ js ''<!-- req_'' @ stamp @ js '' -->''"

definition enhanceMessages :: "js_string \<Rightarrow> Message list \<Rightarrow> Message list" where
  "enhanceMessages stamp originalMessages =
     (if length originalMessages > 0 then
        (let lastMessage = last originalMessages in
         if role lastMessage = js ''user''
         then butlast originalMessages @ [lastMessage\<lparr>content := content lastMessage @ requestTag stamp\<rparr>]
         else originalMessages)
      else originalMessages)"

section \<open>Upstream calls and response strategies\<close>

record GeminiKey =
  key_id :: js_string
  api_key :: js_string

text \<open>
  The Gemini SDK, as the handlers see it: for an API key, a model and a request,
  \<open>generateContent\<close> (followed by \<open>response.text()\<close>) yields the text or throws, and
  \<open>generateContentStream\<close> throws or yields the text fragments of the stream, possibly
  ended by an error thrown while iterating.
\<close>

record Upstream =
  generateContent :: "js_string \<Rightarrow> js_string \<Rightarrow> GeminiRequest \<Rightarrow> thrown + js_string"
  generateContentStream :: "js_string \<Rightarrow> js_string \<Rightarrow> GeminiRequest \<Rightarrow> thrown + (js_string list \<times> thrown option)"

text \<open>The completion object; \<open>id\<close> and \<open>created\<close> (both from \<open>Date.now()\<close>) are left out.\<close>

record Completion =
  object :: js_string
  completion_model :: js_string
  message_role :: js_string
  message_content :: js_string
  finish_reason :: js_string
  prompt_tokens :: nat
  completion_tokens :: nat
  total_tokens :: nat

definition createCompletion :: "js_string \<Rightarrow> js_string \<Rightarrow> Completion" where
  "createCompletion text mdl =
     \<lparr>object = js ''chat.completion'', completion_model = mdl, message_role = js ''assistant'',
      message_content = text, finish_reason = js ''stop'',
      prompt_tokens = 0, completion_tokens = 0, total_tokens = 0\<rparr>"

text \<open>
  A streaming \<open>Response\<close> is returned before its body is produced: it is given by what the
  body will be produced from (the upstream stream, or the full text to re-chunk), and by
  which copy of the strategy produces it.
\<close>

datatype stream_body =
    RealStreamBody js_string "js_string list" "thrown option"
  | FakeStreamBody js_string js_string
  | RealStreamBody_old js_string "js_string list" "thrown option"
  | FakeStreamBody_old js_string js_string

text \<open>What a strategy of the edge handler returns: a \<open>Response\<close> or a completion object.\<close>

datatype edge_result =
    StreamResponse stream_body
  | CompletionResult Completion

text \<open>The effects of one request, in order.\<close>

datatype effect =
    UpdateKeyUsage js_string
  | CallGenerateContent js_string
  | CallGenerateContentStream js_string
  | ResWriteHead
  | ResWrite js_string
  | ResEnd
  | LogApiCall js_string int js_string
  | MarkKeyAsInvalid js_string js_string

definition emptyResponseError :: thrown where
  "emptyResponseError = newError (js ''Empty response from Gemini API'')"

definition handleRealStream :: "Upstream \<Rightarrow> js_string \<Rightarrow> GeminiRequest \<Rightarrow> js_string \<Rightarrow> (thrown + edge_result) \<times> effect list" where
  "handleRealStream up apiKey geminiRequest mdl =
     (case generateContentStream up apiKey mdl geminiRequest of
        Inl error \<Rightarrow> (Inl error, [CallGenerateContentStream apiKey])
      | Inr (chunks, streamError) \<Rightarrow>
          (Inr (StreamResponse (RealStreamBody mdl chunks streamError)), [CallGenerateContentStream apiKey]))"

definition handleFakeStream :: "Upstream \<Rightarrow> js_string \<Rightarrow> GeminiRequest \<Rightarrow> js_string \<Rightarrow> (thrown + edge_result) \<times> effect list" where
  "handleFakeStream up apiKey geminiRequest mdl =
     (case generateContent up apiKey mdl geminiRequest of
        Inl error \<Rightarrow> (Inl error, [CallGenerateContent apiKey])
      | Inr fullText \<Rightarrow>
          if fullText = [] \<or> js_trim fullText = []
          then (Inl emptyResponseError, [CallGenerateContent apiKey])
          else (Inr (StreamResponse (FakeStreamBody mdl fullText)), [CallGenerateContent apiKey]))"

definition handleNonStream :: "Upstream \<Rightarrow> js_string \<Rightarrow> GeminiRequest \<Rightarrow> js_string \<Rightarrow> (thrown + edge_result) \<times> effect list" where
  "handleNonStream up apiKey geminiRequest mdl =
     (case generateContent up apiKey mdl geminiRequest of
        Inl error \<Rightarrow> (Inl error, [CallGenerateContent apiKey])
      | Inr text \<Rightarrow>
          if text = [] \<or> js_trim text = []
          then (Inl emptyResponseError, [CallGenerateContent apiKey])
          else (Inr (CompletionResult (createCompletion text mdl)), [CallGenerateContent apiKey]))"

text \<open>The body of the \<open>try\<close> block in the loop of the current edge handler.\<close>

definition attempt_edge :: "Upstream \<Rightarrow> bool \<Rightarrow> StreamingConfig \<Rightarrow> GeminiRequest \<Rightarrow> js_string \<Rightarrow> GeminiKey \<Rightarrow> (thrown + edge_result) \<times> effect list" where
  "attempt_edge up isStream streamingConfig geminiRequest mdl key =
     (case selectStrategy isStream streamingConfig of
        RealStream \<Rightarrow> handleRealStream up (api_key key) geminiRequest mdl
      | FakeStream \<Rightarrow> handleFakeStream up (api_key key) geminiRequest mdl
      | NonStream \<Rightarrow> handleNonStream up (api_key key) geminiRequest mdl)"

text \<open>
  The three strategies of the earlier edge handler kept in the same file: they have no
  test for an empty text.
\<close>

definition handleRealStream_old :: "Upstream \<Rightarrow> js_string \<Rightarrow> GeminiRequest \<Rightarrow> js_string \<Rightarrow> (thrown + edge_result) \<times> effect list" where
  "handleRealStream_old up apiKey geminiRequest mdl =
     (case generateContentStream up apiKey mdl geminiRequest of
        Inl error \<Rightarrow> (Inl error, [CallGenerateContentStream apiKey])
      | Inr (chunks, streamError) \<Rightarrow>
          (Inr (StreamResponse (RealStreamBody_old mdl chunks streamError)), [CallGenerateContentStream apiKey]))"

definition handleFakeStream_old :: "Upstream \<Rightarrow> js_string \<Rightarrow> GeminiRequest \<Rightarrow> js_string \<Rightarrow> (thrown + edge_result) \<times> effect list" where
  "handleFakeStream_old up apiKey geminiRequest mdl =
     (case generateContent up apiKey mdl geminiRequest of
        Inl error \<Rightarrow> (Inl error, [CallGenerateContent apiKey])
      | Inr fullText \<Rightarrow> (Inr (StreamResponse (FakeStreamBody_old mdl fullText)), [CallGenerateContent apiKey]))"

definition handleNonStream_old :: "Upstream \<Rightarrow> js_string \<Rightarrow> GeminiRequest \<Rightarrow> js_string \<Rightarrow> (thrown + edge_result) \<times> effect list" where
  "handleNonStream_old up apiKey geminiRequest mdl =
     (case generateContent up apiKey mdl geminiRequest of
        Inl error \<Rightarrow> (Inl error, [CallGenerateContent apiKey])
      | Inr text \<Rightarrow> (Inr (CompletionResult (createCompletion text mdl)), [CallGenerateContent apiKey]))"

text \<open>
  The body of the \<open>try\<close> block in the loop of the earlier edge handler, with its inner
  \<open>try\<close> around the real stream.
\<close>

definition attempt_edge_old :: "Upstream \<Rightarrow> bool \<Rightarrow> StreamingConfig \<Rightarrow> GeminiRequest \<Rightarrow> js_string \<Rightarrow> GeminiKey \<Rightarrow> (thrown + edge_result) \<times> effect list" where
  "attempt_edge_old up isStream streamingConfig geminiRequest mdl key =
     (if isStream \<and> enabled streamingConfig then
        (if enabled streamingConfig \<and> \<not> fake_stream_enabled streamingConfig then
           (case handleRealStream_old up (api_key key) geminiRequest mdl of
              (Inr result, fx) \<Rightarrow> (Inr result, fx)
            | (Inl error, fx) \<Rightarrow>
                if fake_stream_enabled streamingConfig
                then (case handleFakeStream_old up (api_key key) geminiRequest mdl of
                        (outcome, fx2) \<Rightarrow> (outcome, fx @ fx2))
                else (Inl error, fx))
         else handleFakeStream_old up (api_key key) geminiRequest mdl)
      else if isStream \<and> fake_stream_enabled streamingConfig
      then handleFakeStream_old up (api_key key) geminiRequest mdl
      else handleNonStream_old up (api_key key) geminiRequest mdl)"

text \<open>
  completions.ts passes the one \<open>res\<close> to every attempt. \<open>res.writeHead\<close> throws this
  error when the head of the response is already written.
\<close>

definition ERR_HTTP_HEADERS_SENT :: thrown where
  "ERR_HTTP_HEADERS_SENT =
     JsError (js ''Cannot write headers after they are sent to the client'')
       (js ''Error [ERR_HTTP_HEADERS_SENT]: Cannot write headers after they are sent to the client'')
       (JStr (js ''ERR_HTTP_HEADERS_SENT'')) JUndefined"

text \<open>
  \<open>callGeminiWithKey\<close> of completions.ts: it writes a stream to \<open>res\<close> itself, and turns
  every exception into \<open>{success: false, error}\<close>. \<open>headSent\<close> says whether the head of
  \<open>res\<close> is already written when the attempt starts. The result of a success is the
  \<open>response\<close> field: the completion, or nothing for a stream.
\<close>

definition callGeminiWithKey :: "Upstream \<Rightarrow> bool \<Rightarrow> GeminiRequest \<Rightarrow> js_string \<Rightarrow> bool \<Rightarrow> GeminiKey \<Rightarrow> (thrown + Completion option) \<times> effect list" where
  "callGeminiWithKey up isStream geminiRequest mdl headSent key =
     (if isStream then
        (case generateContentStream up (api_key key) mdl geminiRequest of
           Inl error \<Rightarrow> (Inl error, [CallGenerateContentStream (api_key key)])
         | Inr (chunks, streamError) \<Rightarrow>
             if headSent then (Inl ERR_HTTP_HEADERS_SENT, [CallGenerateContentStream (api_key key)])
             else
               (let written = [CallGenerateContentStream (api_key key), ResWriteHead]
                              @ map ResWrite (filter (\<lambda>t. t \<noteq> []) chunks)
                in case streamError of
                     Some error \<Rightarrow> (Inl error, written)
                   | None \<Rightarrow> (Inr None, written @ [ResWrite (js ''[DONE]''), ResEnd])))
      else
        (case generateContent up (api_key key) mdl geminiRequest of
           Inl error \<Rightarrow> (Inl error, [CallGenerateContent (api_key key)])
         | Inr text \<Rightarrow> (Inr (Some (createCompletion text mdl)), [CallGenerateContent (api_key key)])))"

section \<open>The polling loop\<close>

text \<open>Whether the head of the response has been written, read from the effects so far.\<close>

definition headWritten :: "effect list \<Rightarrow> bool" where
  "headWritten trace = (ResWriteHead \<in> set trace)"

text \<open>
  How the \<open>for (const key of ...)\<close> loop is left: by \<open>return\<close> from inside it, or to the
  code after it (by exhaustion or by \<open>break\<close>), with \<open>lastError\<close> and \<open>triedKeys\<close>.
\<close>

datatype 'r loop_exit =
    Returned 'r "js_string list" "effect list"
  | AfterLoop thrown "js_string list" "effect list"

text \<open>
  The loop body is the same text in completions.ts and in both edge handlers but for the
  attempt itself, which is the parameter \<open>attempt\<close>. The attempt is told whether the head
  of the response is written at that moment: the attempt of completions.ts depends on
  it, those of the edge handlers do not.
\<close>

fun pollKeys :: "(bool \<Rightarrow> GeminiKey \<Rightarrow> (thrown + 'r) \<times> effect list) \<Rightarrow> GeminiKey list \<Rightarrow> thrown \<Rightarrow> js_string list \<Rightarrow> effect list \<Rightarrow> 'r loop_exit" where
  "pollKeys attempt [] lastError triedKeys trace = AfterLoop lastError triedKeys trace"
| "pollKeys attempt (key # rest) lastError triedKeys trace =
     (let triedKeys1 = triedKeys @ [key_id key];
          trace1 = trace @ [UpdateKeyUsage (key_id key)]
      in case attempt (headWritten trace1) key of
           (Inr result, fx) \<Rightarrow>
             Returned result triedKeys1 (trace1 @ fx @ [LogApiCall (key_id key) 200 []])
         | (Inl error, fx) \<Rightarrow>
             (let errorMsg = errorMsgOf error;
                  trace2 = trace1 @ fx @ [LogApiCall (key_id key) (failureStatusCode errorMsg) errorMsg]
              in if isRetryableError error
                 then pollKeys attempt rest error triedKeys1
                        (trace2 @ (if isKeyInvalidMessage errorMsg
                                 then [MarkKeyAsInvalid (key_id key) errorMsg] else []))
                 else AfterLoop error triedKeys1 trace2))"

section \<open>The final error\<close>

fun isApiError :: "thrown \<Rightarrow> bool" where
  "isApiError (ApiError sc m t) = True"
| "isApiError _ = False"

text \<open>The code after the loop of the current edge handler.\<close>

definition finalError_edge :: "thrown \<Rightarrow> js_string list \<Rightarrow> thrown" where
  "finalError_edge lastError triedKeys =
     (if isApiError lastError then lastError
      else
        let errorMsg = errorMsgOf lastError in
        if js_includes errorMsg (js ''quota'') \<or> js_includes errorMsg (js ''QUOTA_EXCEEDED'')
        then newApiError 429 (js ''All API keys have exceeded quota limits'')
        else if js_includes errorMsg (js ''API_KEY_INVALID'') \<or> js_includes errorMsg (js ''Invalid API key'')
        then newApiError 401 (js ''All API keys are invalid'')
        else if js_includes errorMsg (js ''Empty response'')
        then newApiError 502 (js ''All API keys returned empty responses'')
        else newApiError 503 (js ''All '' @ nat_toString (length triedKeys)
                              @ js '' API keys failed. Last error: '' @ errorMsg))"

text \<open>
  The code after the loop of completions.ts, and of the earlier edge handler: it has no
  empty-response case.
\<close>

definition finalError_node :: "thrown \<Rightarrow> js_string list \<Rightarrow> thrown" where
  "finalError_node lastError triedKeys =
     (if isApiError lastError then lastError
      else
        let errorMsg = errorMsgOf lastError in
        if js_includes errorMsg (js ''quota'') \<or> js_includes errorMsg (js ''QUOTA_EXCEEDED'')
        then newApiError 429 (js ''All API keys have exceeded quota limits'')
        else if js_includes errorMsg (js ''API_KEY_INVALID'') \<or> js_includes errorMsg (js ''Invalid API key'')
        then newApiError 401 (js ''All API keys are invalid'')
        else newApiError 503 (js ''All '' @ nat_toString (length triedKeys)
                              @ js '' API keys failed. Last error: '' @ errorMsg))"

section \<open>The handlers, from the configuration step on\<close>

text \<open>
  What the caller receives: a streaming response; a completion with status 200; the JSON
  of an \<open>ApiError\<close> with its status code (message, type and code); in completions.ts,
  what was written to \<open>res\<close> as a stream, the answer of the edge function relayed as
  JSON, or nothing more when the handler itself throws.
\<close>

datatype http_response =
    EventStream stream_body
  | JsonCompletion Completion
  | JsonError int js_string js_string js_string
  | WrittenToRes
  | RelayedJson int js_string
  | HandlerThrows

text \<open>\<open>apiError.toJSON()\<close> sent with \<open>apiError.statusCode\<close>; any other thrown value becomes \<open>new ApiError(500)\<close>.\<close>

definition errorResponse :: "thrown \<Rightarrow> http_response" where
  "errorResponse error =
     (case (if isApiError error then error else newApiError 500 []) of
        ApiError sc m t \<Rightarrow> JsonError sc m t (nat_toString (nat sc))
      | _ \<Rightarrow> JsonError 500 [] [] [])"

definition modelOrDefault :: "js_string \<Rightarrow> js_string" where
  "modelOrDefault m = (if m \<noteq> [] then m else js ''gemini-pro'')"

definition isStreamOf :: "OpenAIRequest \<Rightarrow> bool" where
  "isStreamOf requestBody = truthy (js_or (stream requestBody) (JBool False))"

text \<open>The request the current edge handler converts: the body with the tagged messages.\<close>

definition edgeRequest :: "bool \<Rightarrow> (nat \<Rightarrow> int) \<Rightarrow> js_string \<Rightarrow> OpenAIRequest \<Rightarrow> GeminiRequest" where
  "edgeRequest disguiseEnabled rand stamp requestBody =
     convertOpenAItoGemini disguiseEnabled rand
       (requestBody\<lparr>messages := enhanceMessages stamp (messages requestBody)\<rparr>)"

text \<open>
  The current edge handler after authentication and body parsing. \<open>keysResult\<close> is the
  outcome of \<open>getAllAvailableGeminiKeys()\<close>; \<open>sortRandom\<close> stands for
  \<open>Array.prototype.sort\<close> with the comparator \<open>() => Math.random() - 0.5\<close>. A result that
  is a \<open>Response\<close> is returned as it is, any other as JSON with status 200.
\<close>

definition handler_edge ::
  "Upstream \<Rightarrow> (GeminiKey list \<Rightarrow> GeminiKey list) \<Rightarrow> bool \<Rightarrow> (nat \<Rightarrow> int) \<Rightarrow> js_string \<Rightarrow>
   StreamingConfig \<Rightarrow> thrown + GeminiKey list \<Rightarrow> OpenAIRequest \<Rightarrow> http_response \<times> effect list" where
  "handler_edge up sortRandom disguiseEnabled rand stamp streamingConfig keysResult requestBody =
     (case keysResult of
        Inl error \<Rightarrow> (errorResponse error, [])
      | Inr availableKeys \<Rightarrow>
          (let mdl = modelOrDefault (model requestBody);
               isStream = isStreamOf requestBody;
               geminiRequest = edgeRequest disguiseEnabled rand stamp requestBody;
               shuffledKeys = sortRandom availableKeys
           in case pollKeys (\<lambda>headSent. attempt_edge up isStream streamingConfig geminiRequest mdl)
                     shuffledKeys Nullish [] [] of
                Returned result triedKeys trace \<Rightarrow>
                  (case result of
                     StreamResponse body \<Rightarrow> (EventStream body, trace)
                   | CompletionResult completion \<Rightarrow> (JsonCompletion completion, trace))
              | AfterLoop lastError triedKeys trace \<Rightarrow>
                  (errorResponse (finalError_edge lastError triedKeys), trace)))"

text \<open>
  The earlier edge handler kept in the same file: no request tag, no random order, the
  earlier strategies, and no empty-response case after the loop.
\<close>

definition handler_edge_old ::
  "Upstream \<Rightarrow> bool \<Rightarrow> (nat \<Rightarrow> int) \<Rightarrow> StreamingConfig \<Rightarrow> thrown + GeminiKey list \<Rightarrow> OpenAIRequest \<Rightarrow>
   http_response \<times> effect list" where
  "handler_edge_old up disguiseEnabled rand streamingConfig keysResult requestBody =
     (case keysResult of
        Inl error \<Rightarrow> (errorResponse error, [])
      | Inr availableKeys \<Rightarrow>
          (let mdl = modelOrDefault (model requestBody);
               isStream = isStreamOf requestBody;
               geminiRequest = convertOpenAItoGemini disguiseEnabled rand requestBody
           in case pollKeys (\<lambda>headSent. attempt_edge_old up isStream streamingConfig geminiRequest mdl)
                     availableKeys Nullish [] [] of
                Returned result triedKeys trace \<Rightarrow>
                  (case result of
                     StreamResponse body \<Rightarrow> (EventStream body, trace)
                   | CompletionResult completion \<Rightarrow> (JsonCompletion completion, trace))
              | AfterLoop lastError triedKeys trace \<Rightarrow>
                  (errorResponse (finalError_node lastError triedKeys), trace)))"

text \<open>
  \<open>res.status(code).json(body)\<close> in completions.ts. Once the head of the response is
  written it throws; the handler's \<open>catch\<close> block then calls it again, with status 500,
  and it throws again: the handler throws and no JSON is sent.
\<close>

definition sendJson :: "effect list \<Rightarrow> http_response \<Rightarrow> http_response" where
  "sendJson trace response = (if headWritten trace then HandlerThrows else response)"

text \<open>
  completions.ts from its step 4 on, reached with the effects \<open>trace0\<close> already made on
  \<open>res\<close>. The keys are polled in the order given, every attempt with the same \<open>res\<close>.
\<close>

definition handler_node_from ::
  "effect list \<Rightarrow> Upstream \<Rightarrow> bool \<Rightarrow> (nat \<Rightarrow> int) \<Rightarrow> thrown + GeminiKey list \<Rightarrow> OpenAIRequest \<Rightarrow>
   http_response \<times> effect list" where
  "handler_node_from trace0 up disguiseEnabled rand keysResult requestBody =
     (case keysResult of
        Inl error \<Rightarrow> (sendJson trace0 (errorResponse error), trace0)
      | Inr availableKeys \<Rightarrow>
          (let isStream = isStreamOf requestBody;
               mdl = modelOrDefault (model requestBody);
               geminiRequest = convertOpenAItoGemini disguiseEnabled rand requestBody
           in case pollKeys (callGeminiWithKey up isStream geminiRequest mdl)
                     availableKeys Nullish [] trace0 of
                Returned response triedKeys trace \<Rightarrow>
                  (case response of
                     Some completion \<Rightarrow>
                       if \<not> isStream then (sendJson trace (JsonCompletion completion), trace)
                       else (WrittenToRes, trace)
                   | None \<Rightarrow> (WrittenToRes, trace))
              | AfterLoop lastError triedKeys trace \<Rightarrow>
                  (sendJson trace (errorResponse (finalError_node lastError triedKeys)), trace)))"

text \<open>Step 4 reached with nothing written yet.\<close>

definition handler_node ::
  "Upstream \<Rightarrow> bool \<Rightarrow> (nat \<Rightarrow> int) \<Rightarrow> thrown + GeminiKey list \<Rightarrow> OpenAIRequest \<Rightarrow> http_response \<times> effect list" where
  "handler_node up disguiseEnabled rand keysResult requestBody =
     handler_node_from [] up disguiseEnabled rand keysResult requestBody"

text \<open>
  Step 3.5 of completions.ts: a streaming request is forwarded to the edge function when
  the \<open>enabled\<close> setting is on. The outcome of the forwarding: \<open>fetch\<close> (or reading a JSON
  body) throws before anything is written; an event stream is relayed to \<open>res\<close>, and
  reading it may throw in the end; or a JSON answer is relayed with its status. An
  exception falls back to step 4.
\<close>

datatype forward_outcome =
    ForwardFails
  | ForwardedStream "js_string list" bool
  | ForwardedJson int js_string

definition handler_completions ::
  "Upstream \<Rightarrow> bool \<Rightarrow> (nat \<Rightarrow> int) \<Rightarrow> StreamingConfig \<Rightarrow> forward_outcome \<Rightarrow> thrown + GeminiKey list \<Rightarrow>
   OpenAIRequest \<Rightarrow> http_response \<times> effect list" where
  "handler_completions up disguiseEnabled rand streamingConfig forward keysResult requestBody =
     (if isStreamOf requestBody \<and> enabled streamingConfig then
        (case forward of
           ForwardFails \<Rightarrow> handler_node up disguiseEnabled rand keysResult requestBody
         | ForwardedStream relayedValues readFails \<Rightarrow>
             (let relayed = [ResWriteHead] @ map ResWrite relayedValues
              in if readFails
                 then handler_node_from relayed up disguiseEnabled rand keysResult requestBody
                 else (WrittenToRes, relayed @ [ResEnd]))
         | ForwardedJson status body \<Rightarrow> (RelayedJson status body, []))
      else handler_node up disguiseEnabled rand keysResult requestBody)"

text \<open>Reading a trace: the upstream calls made, and the keys whose usage was recorded.\<close>

fun upstreamCall :: "effect \<Rightarrow> js_string list" where
  "upstreamCall (CallGenerateContent apiKey) = [apiKey]"
| "upstreamCall (CallGenerateContentStream apiKey) = [apiKey]"
| "upstreamCall _ = []"

definition upstreamCalls :: "effect list \<Rightarrow> js_string list" where
  "upstreamCalls trace = concat (map upstreamCall trace)"

fun usageUpdate :: "effect \<Rightarrow> js_string list" where
  "usageUpdate (UpdateKeyUsage keyId) = [keyId]"
| "usageUpdate _ = []"

definition triedKeyIds :: "effect list \<Rightarrow> js_string list" where
  "triedKeyIds trace = concat (map usageUpdate trace)"

text \<open>An attempt on a key fails with a retryable error; the error it throws.\<close>

definition failsRetryably :: "(GeminiKey \<Rightarrow> (thrown + 'r) \<times> effect list) \<Rightarrow> GeminiKey \<Rightarrow> bool" where
  "failsRetryably attempt key =
     (case fst (attempt key) of Inl error \<Rightarrow> isRetryableError error | Inr result \<Rightarrow> False)"

definition thrownBy :: "(GeminiKey \<Rightarrow> (thrown + 'r) \<times> effect list) \<Rightarrow> GeminiKey \<Rightarrow> thrown" where
  "thrownBy attempt key = (case fst (attempt key) of Inl error \<Rightarrow> error | Inr result \<Rightarrow> Nullish)"

text \<open>The effects of one iteration of the loop whose attempt fails.\<close>

definition failedIteration :: "(GeminiKey \<Rightarrow> (thrown + 'r) \<times> effect list) \<Rightarrow> GeminiKey \<Rightarrow> effect list" where
  "failedIteration attempt key =
     (let errorMsg = errorMsgOf (thrownBy attempt key) in
      [UpdateKeyUsage (key_id key)] @ snd (attempt key)
      @ [LogApiCall (key_id key) (failureStatusCode errorMsg) errorMsg]
      @ (if isRetryableError (thrownBy attempt key) \<and> isKeyInvalidMessage errorMsg
         then [MarkKeyAsInvalid (key_id key) errorMsg] else []))"


section \<open>The credential pool (lib/key-manager.ts)\<close>

text \<open>
  A Supabase query either throws or answers \<open>{data, error}\<close>: whether \<open>error\<close> is set,
  and the rows (\<open>None\<close> for \<open>null\<close>).
\<close>

datatype 'a query_result = QueryThrows thrown | QueryReply bool "'a list option"

definition fetchKeysFromDb :: "GeminiKey query_result \<Rightarrow> thrown + GeminiKey list" where
  "fetchKeysFromDb q =
     (case q of
        QueryThrows e \<Rightarrow> Inl e
      | QueryReply error data \<Rightarrow>
          if error then Inr []
          else Inr (case data of Some rows \<Rightarrow> rows | None \<Rightarrow> []))"

text \<open>
  What \<open>getAllAvailableGeminiKeys\<close> reads: \<open>NODE_ENV\<close>, the outcome of \<open>kv.get\<close>
  (throws, or the cached value, \<open>None\<close> for \<open>null\<close>), what \<open>kv.setex\<close> throws if it
  does, and the outcome of the first and of the second database query.
\<close>

record KeyStore =
  development :: bool
  kv_get :: "thrown + GeminiKey list option"
  kv_setex :: "thrown option"
  db_query :: "nat \<Rightarrow> GeminiKey query_result"

text \<open>
  The inner part of \<open>getAllAvailableGeminiKeys\<close>: the keys or an exception, and the list
  stored in the cache, if one was.
\<close>

definition lookupKeys :: "KeyStore \<Rightarrow> (thrown + GeminiKey list) \<times> GeminiKey list option" where
  "lookupKeys st =
     (if development st then (fetchKeysFromDb (db_query st 0), None)
      else
        case kv_get st of
          Inl cacheError \<Rightarrow> (fetchKeysFromDb (db_query st 0), None)
        | Inr cachedKeys \<Rightarrow>
            (case cachedKeys of
               Some (k # ks) \<Rightarrow> (Inr (k # ks), None)
             | _ \<Rightarrow>
                 (case fetchKeysFromDb (db_query st 0) of
                    Inl cacheError \<Rightarrow> (fetchKeysFromDb (db_query st 1), None)
                  | Inr keys \<Rightarrow>
                      if length keys > 0 then
                        (case kv_setex st of
                           Some cacheError \<Rightarrow> (fetchKeysFromDb (db_query st 1), None)
                         | None \<Rightarrow> (Inr keys, Some keys))
                      else (Inr keys, None))))"

definition getAllAvailableGeminiKeys :: "KeyStore \<Rightarrow> (thrown + GeminiKey list) \<times> GeminiKey list option" where
  "getAllAvailableGeminiKeys st =
     (case lookupKeys st of
        (Inl error, cached) \<Rightarrow> (Inl (if isApiError error then error else newApiError 500 []), cached)
      | (Inr keys, cached) \<Rightarrow>
          if length keys = 0 then (Inl (newApiError 503 []), cached)
          else (Inr keys, cached))"

section \<open>The models endpoint\<close>

record ModelEntry =
  entry_id :: js_string
  entry_object :: js_string
  created :: nat
  owned_by :: js_string
  permission :: "js_val list"
  root :: js_string
  parent :: js_val

datatype models_body = ModelList "ModelEntry list" | ErrorMessage js_string

text \<open>
  \<open>googleResponse.models\<close>: absent (or falsy), an array of objects given by their \<open>name\<close>
  property, or another truthy value.
\<close>

datatype google_models = ModelsMissing | ModelsArray "js_val list" | ModelsOther

text \<open>
  \<open>fetch\<close> throws, or answers with its \<open>ok\<close> flag and the outcome of \<open>json()\<close>
  (\<open>None\<close> when that throws).
\<close>

datatype fetch_outcome = FetchThrows | FetchResponse bool "google_models option"

text \<open>
  The \<open>filter\<close> over the models, on their names; \<open>None\<close> is the TypeError of calling
  \<open>includes\<close> on a truthy name that is not a string.
\<close>

fun filterGemini :: "js_val list \<Rightarrow> js_string list option" where
  "filterGemini [] = Some []"
| "filterGemini (JStr s # rest) =
     (if s \<noteq> [] \<and> js_includes s (js ''gemini'')
      then map_option ((#) s) (filterGemini rest)
      else filterGemini rest)"
| "filterGemini (v # rest) = (if truthy v then None else filterGemini rest)"

text \<open>\<open>String.prototype.replace\<close> with a string pattern: the first occurrence only.\<close>

fun js_replace :: "js_string \<Rightarrow> js_string \<Rightarrow> js_string \<Rightarrow> js_string" where
  "js_replace [] p r = (if p = [] then r else [])"
| "js_replace (c # cs) p r =
     (if js_startsWith (c # cs) p then r @ drop (length p) (c # cs)
      else c # js_replace cs p r)"

definition toModelEntry :: "nat \<Rightarrow> js_string \<Rightarrow> ModelEntry" where
  "toModelEntry now name =
     (let modelId = js_replace name (js ''models/'') [] in
      \<lparr>entry_id = modelId, entry_object = js ''model'', created = now, owned_by = js ''google'',
       permission = [], root = modelId, parent = JNull\<rparr>)"

text \<open>
  The handler: the request method, the outcome of the key query, \<open>fetch\<close> as a function
  of the API key, and \<open>now\<close> for \<open>Math.floor(Date.now() / 1000)\<close>.
\<close>

definition modelsHandler :: "js_string \<Rightarrow> js_string query_result \<Rightarrow> (js_string \<Rightarrow> fetch_outcome) \<Rightarrow> nat \<Rightarrow> int \<times> models_body" where
  "modelsHandler method keyQuery fetch now =
     (if method \<noteq> js ''GET'' then (405, ErrorMessage (js ''Method not allowed''))
      else
        case keyQuery of
          QueryThrows e \<Rightarrow> (200, ModelList [])
        | QueryReply error geminiKeys \<Rightarrow>
            (case (if error then None else geminiKeys) of
               None \<Rightarrow> (200, ModelList [])
             | Some [] \<Rightarrow> (200, ModelList [])
             | Some (apiKey # others) \<Rightarrow>
                 (case fetch apiKey of
                    FetchThrows \<Rightarrow> (200, ModelList [])
                  | FetchResponse ok body \<Rightarrow>
                      if \<not> ok then (200, ModelList [])
                      else
                        (case body of
                           None \<Rightarrow> (200, ModelList [])
                         | Some ModelsMissing \<Rightarrow> (200, ModelList [])
                         | Some ModelsOther \<Rightarrow> (200, ModelList [])
                         | Some (ModelsArray names) \<Rightarrow>
                             (case filterGemini names of
                                None \<Rightarrow> (200, ModelList [])
                              | Some kept \<Rightarrow> (200, ModelList (map (toModelEntry now) kept)))))))"

section \<open>Fake-stream chunking (handleFakeStream, completions-edge.ts)\<close>

text \<open>
  The earlier variant: \<open>sendChunk\<close> cuts three code units at a time. The result is the
  list of chunk texts enqueued, in order.
\<close>

definition chunkSize_old :: nat where
  "chunkSize_old = 3"

function sendChunk :: "js_string \<Rightarrow> nat \<Rightarrow> js_string list" where
  "sendChunk fullText currentIndex =
     (if currentIndex < length fullText then
        (let chunkText = js_slice fullText currentIndex (currentIndex + chunkSize_old) in
         (if chunkText \<noteq> [] then [chunkText] else [])
         @ sendChunk fullText (currentIndex + chunkSize_old))
      else [])"
  by pat_completeness auto
termination
  by (relation "measure (\<lambda>(fullText, currentIndex). length fullText - currentIndex)")
     (auto simp: chunkSize_old_def)

declare sendChunk.simps [simp del]

text \<open>The current variant. The character class \<open>[\s\.,!?;:]\<close>:\<close>

definition isSeparator :: "16 word \<Rightarrow> bool" where
  "isSeparator c =
     (isWhiteSpace c \<or> c = 0x2E \<or> c = 0x2C \<or> c = 0x21 \<or> c = 0x3F \<or> c = 0x3B \<or> c = 0x3A)"

text \<open>The inner \<open>while\<close> loop that moves \<open>endIndex\<close> back.\<close>

fun scanBack :: "js_string \<Rightarrow> nat \<Rightarrow> nat \<Rightarrow> nat" where
  "scanBack fullText currentIndex 0 = 0"
| "scanBack fullText currentIndex (Suc e) =
     (if Suc e > currentIndex \<and> Suc e < length fullText \<and> fullText ! (Suc e) > 127
         \<and> \<not> isSeparator (fullText ! (Suc e))
      then scanBack fullText currentIndex e
      else Suc e)"

definition chunkSizeFor :: "js_string \<Rightarrow> nat" where
  "chunkSizeFor fullText = max 15 (length fullText div 15)"

text \<open>The value of \<open>endIndex\<close> when the chunk is sliced.\<close>

definition nextEndIndex :: "js_string \<Rightarrow> nat \<Rightarrow> nat \<Rightarrow> nat" where
  "nextEndIndex fullText chunkSize currentIndex =
     (let endIndex = min (currentIndex + chunkSize) (length fullText) in
      if endIndex < length fullText then
        (if fullText ! endIndex > 127 then
           (let e = scanBack fullText currentIndex endIndex in
            if e > currentIndex \<and> isSeparator (fullText ! e) then e + 1 else e)
         else endIndex)
      else endIndex)"

text \<open>
  The outer \<open>while\<close> loop, for a client that does not cancel. It need not terminate, so
  it runs on fuel: \<open>None\<close> when the fuel runs out. The result lists, per iteration,
  \<open>endIndex\<close> and \<open>chunkText\<close>.
\<close>

fun fakeStreamLoop :: "nat \<Rightarrow> js_string \<Rightarrow> nat \<Rightarrow> nat \<Rightarrow> (nat \<times> js_string) list option" where
  "fakeStreamLoop 0 fullText chunkSize currentIndex = None"
| "fakeStreamLoop (Suc fuel) fullText chunkSize currentIndex =
     (if currentIndex < length fullText then
        (let endIndex = nextEndIndex fullText chunkSize currentIndex;
             chunkText = js_slice fullText currentIndex endIndex
         in map_option ((#) (endIndex, chunkText)) (fakeStreamLoop fuel fullText chunkSize endIndex))
      else Some [])"

text \<open>Only a chunk with \<open>chunkText.trim()\<close> non-empty is enqueued.\<close>

definition enqueued :: "(nat \<times> js_string) list \<Rightarrow> js_string list" where
  "enqueued cuts = filter (\<lambda>chunkText. js_trim chunkText \<noteq> []) (map snd cuts)"

definition fakeStreamChunks :: "nat \<Rightarrow> js_string \<Rightarrow> js_string list option" where
  "fakeStreamChunks fuel fullText =
     map_option enqueued (fakeStreamLoop fuel fullText (chunkSizeFor fullText) 0)"

text \<open>
  A cut at index \<open>i\<close> falls inside a character when it separates the two code units of a
  surrogate pair.
\<close>

definition isHighSurrogate :: "16 word \<Rightarrow> bool" where
  "isHighSurrogate c = (0xD800 \<le> c \<and> c \<le> 0xDBFF)"

definition isLowSurrogate :: "16 word \<Rightarrow> bool" where
  "isLowSurrogate c = (0xDC00 \<le> c \<and> c \<le> 0xDFFF)"

definition splitsCharacter :: "js_string \<Rightarrow> nat \<Rightarrow> bool" where
  "splitsCharacter fullText i =
     (0 < i \<and> i < length fullText \<and> isHighSurrogate (fullText ! (i - 1)) \<and> isLowSurrogate (fullText ! i))"

section \<open>Notions of the statements, and inputs to run the model on\<close>

text \<open>
  The attempt each handler makes on a key, as a function of the handler's inputs; for
  completions.ts, the attempt as made while the head of the response is not written.
\<close>

definition edgeAttempt ::
  "Upstream \<Rightarrow> bool \<Rightarrow> (nat \<Rightarrow> int) \<Rightarrow> js_string \<Rightarrow> StreamingConfig \<Rightarrow> OpenAIRequest \<Rightarrow>
   GeminiKey \<Rightarrow> (thrown + edge_result) \<times> effect list" where
  "edgeAttempt up disguiseEnabled rand stamp streamingConfig requestBody =
     attempt_edge up (isStreamOf requestBody) streamingConfig
       (edgeRequest disguiseEnabled rand stamp requestBody) (modelOrDefault (model requestBody))"

definition nodeAttempt ::
  "Upstream \<Rightarrow> bool \<Rightarrow> (nat \<Rightarrow> int) \<Rightarrow> OpenAIRequest \<Rightarrow>
   GeminiKey \<Rightarrow> (thrown + Completion option) \<times> effect list" where
  "nodeAttempt up disguiseEnabled rand requestBody =
     callGeminiWithKey up (isStreamOf requestBody)
       (convertOpenAItoGemini disguiseEnabled rand requestBody) (modelOrDefault (model requestBody))
       False"

text \<open>
  Three keys; an upstream on which only the second key's call succeeds, the others
  failing with a quota error; a request with one user message; a configuration.
\<close>

definition example_keys :: "GeminiKey list" where
  "example_keys = [\<lparr>key_id = js ''1'', api_key = js ''A''\<rparr>, \<lparr>key_id = js ''2'', api_key = js ''B''\<rparr>,
                   \<lparr>key_id = js ''3'', api_key = js ''C''\<rparr>]"


definition example_request :: OpenAIRequest where
  "example_request =
     \<lparr>model = [], messages = [\<lparr>role = js ''user'', content = js ''hi''\<rparr>], stream = JUndefined,
      max_tokens = JUndefined, temperature = JUndefined\<rparr>"

definition example_config :: StreamingConfig where
  "example_config = \<lparr>enabled = True, fake_stream_enabled = False\<rparr>"

text \<open>
  The same request with \<open>stream: true\<close>. An upstream whose stream cannot be opened with
  the first key and yields three fragments, one of them empty, with any other key; one
  whose stream breaks after a fragment with the first key, and is whole with any other.
  The buffered call of both answers every key.
\<close>

definition stream_request :: OpenAIRequest where
  "stream_request =
     \<lparr>model = [], messages = [\<lparr>role = js ''user'', content = js ''hi''\<rparr>], stream = JBool True,
      max_tokens = JUndefined, temperature = JUndefined\<rparr>"

definition streaming_upstream :: Upstream where
  "streaming_upstream =
     \<lparr>generateContent = (\<lambda>apiKey mdl req. Inr (js ''Hello'')),
      generateContentStream = (\<lambda>apiKey mdl req. if apiKey = js ''A'' then Inl (newError (js ''quota exceeded''))
                                                else Inr ([js ''Hel'', [], js ''lo''], None))\<rparr>"


text \<open>An upstream on which every call fails with a quota error.\<close>

definition failing_upstream :: Upstream where
  "failing_upstream =
     \<lparr>generateContent = (\<lambda>apiKey mdl req. Inl (newError (js ''quota exceeded''))),
      generateContentStream = (\<lambda>apiKey mdl req. Inl (newError (js ''quota exceeded'')))\<rparr>"






text \<open>
  Attempts that throw \<open>null\<close>, the number \<open>0\<close>, and a quota error. The thrown values
  \<open>0\<close>, \<open>''\<close>, \<open>false\<close>, \<open>NaN\<close> and the string \<open>'boom'\<close>.
\<close>

definition nullish_attempt :: "bool \<Rightarrow> GeminiKey \<Rightarrow> (thrown + edge_result) \<times> effect list" where
  "nullish_attempt headSent key = (Inl Nullish, [])"

definition zero_attempt :: "bool \<Rightarrow> GeminiKey \<Rightarrow> (thrown + edge_result) \<times> effect list" where
  "zero_attempt headSent key = (Inl (Primitive False (js ''0'')), [])"

definition quota_attempt :: "bool \<Rightarrow> GeminiKey \<Rightarrow> (thrown + edge_result) \<times> effect list" where
  "quota_attempt headSent key = (Inl (newError (js ''quota exceeded'')), [])"

definition thrown_zero :: thrown where
  "thrown_zero = Primitive False (js ''0'')"

definition thrown_empty_string :: thrown where
  "thrown_empty_string = Primitive False []"

definition thrown_false :: thrown where
  "thrown_false = Primitive False (js ''false'')"

definition thrown_NaN :: thrown where
  "thrown_NaN = Primitive False (js ''NaN'')"

definition thrown_boom :: thrown where
  "thrown_boom = Primitive True (js ''boom'')"

text \<open>A non-empty cache entry is read (production only): the database is not asked.\<close>

definition cacheHit :: "KeyStore \<Rightarrow> bool" where
  "cacheHit st =
     (\<not> development st \<and> (case kv_get st of Inr (Some (k # ks)) \<Rightarrow> True | _ \<Rightarrow> False))"

text \<open>Two stores with no cache entry: the query reports an error; the query finds no row.\<close>

definition store_db_error :: KeyStore where
  "store_db_error =
     \<lparr>development = False, kv_get = Inr None, kv_setex = None, db_query = (\<lambda>n. QueryReply True None)\<rparr>"

definition store_db_empty :: KeyStore where
  "store_db_empty =
     \<lparr>development = False, kv_get = Inr None, kv_setex = None, db_query = (\<lambda>n. QueryReply False (Some []))\<rparr>"

text \<open>An upstream model list: two model names, one of them a Gemini model, and a nameless entry.\<close>

definition example_fetch :: "js_string \<Rightarrow> fetch_outcome" where
  "example_fetch apiKey =
     FetchResponse True (Some (ModelsArray [JStr (js ''models/gemini-pro''), JStr (js ''models/embed''), JUndefined]))"

text \<open>
  The conversion of a message whose content is left as it is: the role mapping alone.
  This is what the claim's "not mutated" is measured against.
\<close>

definition convertUnchanged :: "Message \<Rightarrow> GeminiContent option" where
  "convertUnchanged msg =
     (if role msg = js ''system''
      then Some \<lparr>gemini_role = js ''user'', gemini_text = js ''System: '' @ content msg\<rparr>
      else if role msg = js ''user''
      then Some \<lparr>gemini_role = js ''user'', gemini_text = content msg\<rparr>
      else if role msg = js ''assistant''
      then Some \<lparr>gemini_role = js ''model'', gemini_text = content msg\<rparr>
      else None)"

text \<open>A request with a system message and two user messages; one with a system message only.\<close>

definition three_messages :: OpenAIRequest where
  "three_messages =
     \<lparr>model = [], messages = [\<lparr>role = js ''system'', content = js ''s''\<rparr>,
                              \<lparr>role = js ''user'', content = js ''hi''\<rparr>,
                              \<lparr>role = js ''user'', content = js ''yo''\<rparr>],
      stream = JUndefined, max_tokens = JUndefined, temperature = JUndefined\<rparr>"

definition system_only :: OpenAIRequest where
  "system_only =
     \<lparr>model = [], messages = [\<lparr>role = js ''system'', content = js ''s''\<rparr>],
      stream = JUndefined, max_tokens = JUndefined, temperature = JUndefined\<rparr>"

text \<open>
  Texts to run the chunking on: two letters and one character outside the basic plane;
  fifteen letters and a space; sixteen CJK characters.
\<close>

definition letters_and_pair :: js_string where
  "letters_and_pair = [0x61, 0x61, 0xD83D, 0xDE00]"

definition letters_and_space :: js_string where
  "letters_and_space = replicate 15 0x61 @ [0x20]"

definition cjk_run :: js_string where
  "cjk_run = replicate 16 0x4E2D"

section \<open>Verified properties\<close>

subsection \<open>The polling loop\<close>

lemma upstreamCalls_append: "upstreamCalls (a @ b) = upstreamCalls a @ upstreamCalls b"
  by (simp add: upstreamCalls_def)

lemma triedKeyIds_append: "triedKeyIds (a @ b) = triedKeyIds a @ triedKeyIds b"
  by (simp add: triedKeyIds_def)

lemma headWritten_append: "headWritten (a @ b) = (headWritten a \<or> headWritten b)"
  by (auto simp: headWritten_def)

lemma headWritten_usage: "headWritten (trace @ [UpdateKeyUsage keyId]) = headWritten trace"
  by (simp add: headWritten_def)



lemma pollKeys_fail_step:
  assumes "failsRetryably (attempt (headWritten trace)) key"
  shows "pollKeys attempt (key # rest) lastError triedKeys trace =
         pollKeys attempt rest (thrownBy (attempt (headWritten trace)) key) (triedKeys @ [key_id key])
           (trace @ failedIteration (attempt (headWritten trace)) key)"
proof -
  obtain r fx where a: "attempt (headWritten trace) key = (r, fx)"
    by (cases "attempt (headWritten trace) key")
  from assms a obtain e where r: "r = Inl e" and e: "isRetryableError e"
    by (cases r) (auto simp: failsRetryably_def)
  show ?thesis
    using a r e by (simp add: thrownBy_def failedIteration_def Let_def headWritten_usage)
qed


lemma pollKeys_stop_step:
  assumes "attempt (headWritten trace) key = (Inl error, fx)" and "\<not> isRetryableError error"
  shows "pollKeys attempt (key # rest) lastError triedKeys trace =
         AfterLoop error (triedKeys @ [key_id key]) (trace @ failedIteration (attempt (headWritten trace)) key)"
  using assms by (simp add: thrownBy_def failedIteration_def Let_def headWritten_usage)

declare pollKeys.simps [simp del]






lemma failedIteration_calls:
  "upstreamCalls (failedIteration attempt key) = upstreamCalls (snd (attempt key))"
  by (simp add: failedIteration_def Let_def upstreamCalls_append) (simp add: upstreamCalls_def)

lemma failedIteration_tried:
  "triedKeyIds (failedIteration attempt key) = key_id key # triedKeyIds (snd (attempt key))"
  by (simp add: failedIteration_def Let_def triedKeyIds_append) (simp add: triedKeyIds_def)



text \<open>
  Attempts that fail retryably whether or not the head is written, each with one upstream
  call: the loop runs through all the keys.
\<close>

lemma pollKeys_all_fail:
  assumes "\<forall>k\<in>set keys. \<forall>headSent. failsRetryably (attempt headSent) k"
    and "\<And>headSent k. upstreamCalls (snd (attempt headSent k)) = [api_key k]"
    and "\<And>headSent k. triedKeyIds (snd (attempt headSent k)) = []"
  shows "\<exists>error final. pollKeys attempt keys lastError triedKeys trace =
            AfterLoop error (triedKeys @ map key_id keys) final
          \<and> upstreamCalls final = upstreamCalls trace @ map api_key keys
          \<and> triedKeyIds final = triedKeyIds trace @ map key_id keys"
  using assms(1)
proof (induction keys arbitrary: lastError triedKeys trace)
  case Nil
  then show ?case by (simp add: pollKeys.simps)
next
  case (Cons key rest)
  let ?a = "attempt (headWritten trace)"
  have f: "failsRetryably ?a key" using Cons.prems by simp
  have r: "\<forall>k\<in>set rest. \<forall>headSent. failsRetryably (attempt headSent) k" using Cons.prems by simp
  obtain error final where
    p: "pollKeys attempt rest (thrownBy ?a key) (triedKeys @ [key_id key]) (trace @ failedIteration ?a key)
        = AfterLoop error ((triedKeys @ [key_id key]) @ map key_id rest) final"
    and c: "upstreamCalls final = upstreamCalls (trace @ failedIteration ?a key) @ map api_key rest"
    and t: "triedKeyIds final = triedKeyIds (trace @ failedIteration ?a key) @ map key_id rest"
    using Cons.IH [where lastError = "thrownBy ?a key" and triedKeys = "triedKeys @ [key_id key]"
        and trace = "trace @ failedIteration ?a key"] r by blast
  have "pollKeys attempt (key # rest) lastError triedKeys trace
        = AfterLoop error (triedKeys @ map key_id (key # rest)) final"
    using pollKeys_fail_step [where attempt = attempt and trace = trace and key = key
        and rest = rest and lastError = lastError and triedKeys = triedKeys] f p
    by simp
  moreover have "upstreamCalls final = upstreamCalls trace @ map api_key (key # rest)"
    using c by (simp add: upstreamCalls_append failedIteration_calls assms(2))
  moreover have "triedKeyIds final = triedKeyIds trace @ map key_id (key # rest)"
    using t by (simp add: triedKeyIds_append failedIteration_tried assms(3))
  ultimately show ?case by blast
qed

lemma upstreamCalls_ResWrite: "upstreamCalls (map ResWrite xs) = []"
  by (induction xs) (simp_all add: upstreamCalls_def)

lemma triedKeyIds_ResWrite: "triedKeyIds (map ResWrite xs) = []"
  by (induction xs) (simp_all add: triedKeyIds_def)

lemma calls_single:
  "upstreamCalls [] = []" "upstreamCalls (e # es) = upstreamCall e @ upstreamCalls es"
  by (simp_all add: upstreamCalls_def)

lemma tried_single:
  "triedKeyIds [] = []" "triedKeyIds (e # es) = usageUpdate e @ triedKeyIds es"
  by (simp_all add: triedKeyIds_def)

subsection \<open>The attempts\<close>

lemma attempt_edge_calls:
  "upstreamCalls (snd (attempt_edge up isStream cfg req mdl key)) = [api_key key]"
  by (simp add: attempt_edge_def handleRealStream_def handleFakeStream_def handleNonStream_def
      upstreamCalls_def split: strategy.splits sum.splits prod.splits)

lemma attempt_edge_tried:
  "triedKeyIds (snd (attempt_edge up isStream cfg req mdl key)) = []"
  by (simp add: attempt_edge_def handleRealStream_def handleFakeStream_def handleNonStream_def
      triedKeyIds_def split: strategy.splits sum.splits prod.splits)


lemma callGeminiWithKey_calls:
  "upstreamCalls (snd (callGeminiWithKey up isStream req mdl headSent key)) = [api_key key]"
  by (simp add: callGeminiWithKey_def upstreamCalls_append upstreamCalls_ResWrite Let_def
      split: sum.splits prod.splits option.splits)
     (simp add: upstreamCalls_def)

lemma callGeminiWithKey_tried:
  "triedKeyIds (snd (callGeminiWithKey up isStream req mdl headSent key)) = []"
  by (simp add: callGeminiWithKey_def triedKeyIds_append triedKeyIds_ResWrite Let_def
      split: sum.splits prod.splits option.splits)
     (simp add: triedKeyIds_def)

text \<open>The error of a second \<open>writeHead\<close> is retryable: its \<open>code\<close> is a string.\<close>

lemma headers_sent_retryable: "isRetryableError ERR_HTTP_HEADERS_SENT"
  by (simp add: ERR_HTTP_HEADERS_SENT_def isRetryableError_def retryCode_def js_or_def
      strict_eq_num_def js_def)


lemma callGeminiWithKey_fails_in_any_state:
  assumes "failsRetryably (callGeminiWithKey up isStream req mdl False) key"
  shows "failsRetryably (callGeminiWithKey up isStream req mdl headSent) key"
  using assms
  by (auto simp: failsRetryably_def callGeminiWithKey_def headers_sent_retryable Let_def
      split: sum.splits prod.splits option.splits if_splits)


lemma edgeAttempt_calls: "upstreamCalls (snd (edgeAttempt up d rand stamp cfg req k)) = [api_key k]"
  by (simp add: edgeAttempt_def attempt_edge_calls)

lemma edgeAttempt_tried: "triedKeyIds (snd (edgeAttempt up d rand stamp cfg req k)) = []"
  by (simp add: edgeAttempt_def attempt_edge_tried)




text \<open>
  What happens in completions.ts once the head of the response is written and the
  attempt that wrote it has failed: every later streaming attempt fails, the loop is left
  with the head written, and no JSON can be sent any more.
\<close>

lemma stream_attempt_head_sent:
  "\<exists>error. callGeminiWithKey up True req mdl True key
             = (Inl error, [CallGenerateContentStream (api_key key)])"
  by (simp add: callGeminiWithKey_def split: sum.splits prod.splits)

lemma pollKeys_head_written:
  assumes "headWritten trace"
  shows "\<exists>error tried final.
           pollKeys (callGeminiWithKey up True req mdl) keys lastError triedKeys trace
             = AfterLoop error tried final
           \<and> headWritten final"
  using assms
proof (induction keys arbitrary: lastError triedKeys trace)
  case Nil
  then show ?case by (simp add: pollKeys.simps)
next
  case (Cons key rest)
  let ?attempt = "callGeminiWithKey up True req mdl"
  from Cons.prems have h: "headWritten trace = True" by simp
  obtain error where a: "?attempt True key = (Inl error, [CallGenerateContentStream (api_key key)])"
    using stream_attempt_head_sent by blast
  show ?case
  proof (cases "isRetryableError error")
    case True
    then have f: "failsRetryably (?attempt (headWritten trace)) key"
      using a by (simp add: failsRetryably_def h)
    have n: "headWritten (trace @ failedIteration (?attempt True) key)"
      using Cons.prems by (simp add: headWritten_append)
    show ?thesis
      using pollKeys_fail_step [where attempt = ?attempt and trace = trace and key = key
          and rest = rest and lastError = lastError and triedKeys = triedKeys] f
        Cons.IH [OF n]
      by (simp add: h)
  next
    case False
    have "pollKeys ?attempt (key # rest) lastError triedKeys trace =
          AfterLoop error (triedKeys @ [key_id key]) (trace @ failedIteration (?attempt True) key)"
      using pollKeys_stop_step [where attempt = ?attempt and trace = trace and key = key
          and error = error and fx = "[CallGenerateContentStream (api_key key)]" and rest = rest
          and lastError = lastError and triedKeys = triedKeys] a False
      by (simp add: h)
    then show ?thesis using Cons.prems by (simp add: headWritten_append)
  qed
qed

lemma handler_node_head_written:
  assumes "isStreamOf req" and "headWritten trace0"
  shows "fst (handler_node_from trace0 up d rand keysResult req) = HandlerThrows"
proof (cases keysResult)
  case (Inl error)
  then show ?thesis using assms(2) by (simp add: handler_node_from_def sendJson_def)
next
  case (Inr availableKeys)
  obtain error tried final where
    "pollKeys (callGeminiWithKey up True (convertOpenAItoGemini d rand req) (modelOrDefault (model req)))
       availableKeys Nullish [] trace0 = AfterLoop error tried final"
    "headWritten final"
    using pollKeys_head_written [OF assms(2)] by blast
  then show ?thesis
    using Inr assms(1) by (simp add: handler_node_from_def sendJson_def Let_def)
qed




subsection \<open>First success\<close>








lemma quota_error_facts:
  "\<not> isFalsy (newError (js ''quota exceeded''))"
  "retryCode (newError (js ''quota exceeded'')) = JUndefined"
  "isRetryableError (newError (js ''quota exceeded''))"
  "errorMsgOf (newError (js ''quota exceeded'')) = js ''quota exceeded''"
  "failureStatusCode (js ''quota exceeded'') = 429"
  "\<not> isKeyInvalidMessage (js ''quota exceeded'')"
  by (simp_all add: newError_def retryCode_def js_or_def isRetryableError_def strict_eq_num_def
      errorMsgOf_def failureStatusCode_def isKeyInvalidMessage_def js_def)


subsection \<open>One attempt per key\<close>

lemma handler_edge_trace:
  assumes "pollKeys (\<lambda>headSent. edgeAttempt up d rand stamp cfg req) (sortRandom availableKeys) Nullish [] []
           = AfterLoop error tried final"
  shows "snd (handler_edge up sortRandom d rand stamp cfg (Inr availableKeys) req) = final"
  using assms by (simp add: handler_edge_def edgeAttempt_def Let_def)

lemma handler_node_trace:
  assumes "pollKeys (callGeminiWithKey up (isStreamOf req) (convertOpenAItoGemini d rand req)
                       (modelOrDefault (model req))) availableKeys Nullish [] []
           = AfterLoop error tried final"
  shows "snd (handler_node up d rand (Inr availableKeys) req) = final"
  using assms by (simp add: handler_node_def handler_node_from_def Let_def)

lemma handler_edge_all_fail:
  assumes "\<forall>k\<in>set (sortRandom availableKeys). failsRetryably (edgeAttempt up d rand stamp cfg req) k"
  shows "upstreamCalls (snd (handler_edge up sortRandom d rand stamp cfg (Inr availableKeys) req))
           = map api_key (sortRandom availableKeys)
         \<and> triedKeyIds (snd (handler_edge up sortRandom d rand stamp cfg (Inr availableKeys) req))
           = map key_id (sortRandom availableKeys)"
proof -
  let ?attempt = "\<lambda>headSent :: bool. edgeAttempt up d rand stamp cfg req"
  have all: "\<forall>k\<in>set (sortRandom availableKeys). \<forall>headSent. failsRetryably (?attempt headSent) k"
    using assms by simp
  obtain error final where
    "pollKeys ?attempt (sortRandom availableKeys) Nullish [] []
       = AfterLoop error ([] @ map key_id (sortRandom availableKeys)) final"
    "upstreamCalls final = upstreamCalls [] @ map api_key (sortRandom availableKeys)"
    "triedKeyIds final = triedKeyIds [] @ map key_id (sortRandom availableKeys)"
    using pollKeys_all_fail [where attempt = ?attempt and keys = "sortRandom availableKeys"
        and lastError = Nullish and triedKeys = "[]" and trace = "[]"] all
      edgeAttempt_calls edgeAttempt_tried
    by blast
  then show ?thesis
    using handler_edge_trace by (simp add: calls_single tried_single)
qed

lemma handler_node_all_fail:
  assumes "\<forall>k\<in>set availableKeys. failsRetryably (nodeAttempt up d rand req) k"
  shows "upstreamCalls (snd (handler_node up d rand (Inr availableKeys) req)) = map api_key availableKeys
         \<and> triedKeyIds (snd (handler_node up d rand (Inr availableKeys) req)) = map key_id availableKeys"
proof -
  let ?attempt = "callGeminiWithKey up (isStreamOf req) (convertOpenAItoGemini d rand req)
                    (modelOrDefault (model req))"
  have all: "\<forall>k\<in>set availableKeys. \<forall>headSent. failsRetryably (?attempt headSent) k"
    using assms callGeminiWithKey_fails_in_any_state by (simp add: nodeAttempt_def)
  obtain error final where
    "pollKeys ?attempt availableKeys Nullish [] []
       = AfterLoop error ([] @ map key_id availableKeys) final"
    "upstreamCalls final = upstreamCalls [] @ map api_key availableKeys"
    "triedKeyIds final = triedKeyIds [] @ map key_id availableKeys"
    using pollKeys_all_fail [where attempt = ?attempt and keys = availableKeys
        and lastError = Nullish and triedKeys = "[]" and trace = "[]"] all
      callGeminiWithKey_calls callGeminiWithKey_tried
    by blast
  then show ?thesis
    using handler_node_trace by (simp add: calls_single tried_single)
qed

text \<open>
  Claim C2. When the attempt on every eligible key fails with a retryable error, the
  handler makes one upstream call per key: in the edge handler, where the order is the
  result of the random sort (a permutation of the list, as \<open>Array.prototype.sort\<close>
  returns), the calls and the tried ids are the keys' as multisets, and the ids tried are
  distinct when the keys' ids are; in completions.ts they are the keys' in the given order.
\<close>

theorem C2_one_attempt_per_key:
  "(mset (sortRandom availableKeys) = mset availableKeys
    \<and> (\<forall>k\<in>set availableKeys. failsRetryably (edgeAttempt up d rand stamp cfg req) k)
    \<longrightarrow> mset (upstreamCalls (snd (handler_edge up sortRandom d rand stamp cfg (Inr availableKeys) req)))
          = mset (map api_key availableKeys)
      \<and> mset (triedKeyIds (snd (handler_edge up sortRandom d rand stamp cfg (Inr availableKeys) req)))
          = mset (map key_id availableKeys)
      \<and> length (upstreamCalls (snd (handler_edge up sortRandom d rand stamp cfg (Inr availableKeys) req)))
          = length availableKeys
      \<and> distinct (triedKeyIds (snd (handler_edge up sortRandom d rand stamp cfg (Inr availableKeys) req)))
          = distinct (map key_id availableKeys))
   \<and> ((\<forall>k\<in>set availableKeys. failsRetryably (nodeAttempt up d rand req) k)
    \<longrightarrow> upstreamCalls (snd (handler_node up d rand (Inr availableKeys) req)) = map api_key availableKeys
      \<and> triedKeyIds (snd (handler_node up d rand (Inr availableKeys) req)) = map key_id availableKeys)"
proof (intro conjI impI)
  assume h: "mset (sortRandom availableKeys) = mset availableKeys
    \<and> (\<forall>k\<in>set availableKeys. failsRetryably (edgeAttempt up d rand stamp cfg req) k)"
  let ?h = "handler_edge up sortRandom d rand stamp cfg (Inr availableKeys) req"
  let ?ks = "sortRandom availableKeys"
  from h have perm: "mset ?ks = mset availableKeys" by simp
  then have "set ?ks = set availableKeys" by (rule mset_eq_setD)
  with h have all: "\<forall>k\<in>set ?ks. failsRetryably (edgeAttempt up d rand stamp cfg req) k" by simp
  have calls: "upstreamCalls (snd ?h) = map api_key ?ks"
    using handler_edge_all_fail [where sortRandom = sortRandom and availableKeys = availableKeys] all
    by blast
  have tried: "triedKeyIds (snd ?h) = map key_id ?ks"
    using handler_edge_all_fail [where sortRandom = sortRandom and availableKeys = availableKeys] all
    by blast
  have m1: "mset (map api_key ?ks) = mset (map api_key availableKeys)"
    using perm by (metis mset_map)
  have m2: "mset (map key_id ?ks) = mset (map key_id availableKeys)"
    using perm by (metis mset_map)
  show "mset (upstreamCalls (snd ?h)) = mset (map api_key availableKeys)"
    by (simp only: calls m1)
  show "mset (triedKeyIds (snd ?h)) = mset (map key_id availableKeys)"
    by (simp only: tried m2)
  show "length (upstreamCalls (snd ?h)) = length availableKeys"
    using mset_eq_length [OF perm] by (simp add: calls)
  show "distinct (triedKeyIds (snd ?h)) = distinct (map key_id availableKeys)"
    using m2 by (simp only: tried) (metis mset_eq_imp_distinct_iff)
next
  assume all: "\<forall>k\<in>set availableKeys. failsRetryably (nodeAttempt up d rand req) k"
  let ?h = "handler_node up d rand (Inr availableKeys) req"
  show "upstreamCalls (snd ?h) = map api_key availableKeys"
    using handler_node_all_fail [OF all] by simp
  show "triedKeyIds (snd ?h) = map key_id availableKeys"
    using handler_node_all_fail [OF all] by simp
qed

lemma failing_edge_attempt:
  "failsRetryably (edgeAttempt failing_upstream False (\<lambda>i. 0) (js ''t'') example_config example_request) k"
  by (simp add: failsRetryably_def edgeAttempt_def attempt_edge_def isStreamOf_def example_request_def
      js_or_def selectStrategy_def handleNonStream_def failing_upstream_def js_def newError_def
      isRetryableError_def retryCode_def strict_eq_num_def)

lemma failing_node_attempt:
  "failsRetryably (nodeAttempt failing_upstream False (\<lambda>i. 0) example_request) k"
  by (simp add: failsRetryably_def nodeAttempt_def callGeminiWithKey_def isStreamOf_def example_request_def
      js_or_def failing_upstream_def js_def newError_def
      isRetryableError_def retryCode_def strict_eq_num_def)

theorem C2_one_attempt_per_key_witness:
  "mset (upstreamCalls (snd (handler_edge failing_upstream rev False (\<lambda>i. 0) (js ''t'') example_config (Inr example_keys) example_request)))
     = mset [js ''A'', js ''B'', js ''C'']
   \<and> length (upstreamCalls (snd (handler_edge failing_upstream rev False (\<lambda>i. 0) (js ''t'') example_config (Inr example_keys) example_request))) = 3
   \<and> distinct (triedKeyIds (snd (handler_edge failing_upstream rev False (\<lambda>i. 0) (js ''t'') example_config (Inr example_keys) example_request)))
   \<and> upstreamCalls (snd (handler_node failing_upstream False (\<lambda>i. 0) (Inr example_keys) example_request))
     = [js ''A'', js ''B'', js ''C'']"
  using C2_one_attempt_per_key [where sortRandom = rev and availableKeys = example_keys
      and up = failing_upstream and d = False and rand = "\<lambda>i. 0" and stamp = "js ''t''"
      and cfg = example_config and req = example_request]
    failing_edge_attempt failing_node_attempt
  by (simp add: example_keys_def js_def)

subsection \<open>The final error\<close>





















subsection \<open>Retryability\<close>

lemma isRetryableError_iff:
  "isRetryableError error =
     (\<not> isFalsy error \<and> retryCode error \<noteq> JNum 401
      \<and> \<not> (retryCode error = JNum 403 \<and> \<not> js_includes (retryMessage error) (js ''API key'')
             \<and> \<not> js_includes (retryMessage error) (js ''API_KEY'')))"
  by (auto simp: isRetryableError_def strict_eq_num_def Let_def)

lemma retryCode_carried:
  "retryCode error = JNum n \<Longrightarrow> prop_code error = JNum n \<or> prop_status error = JNum n"
  by (auto simp: retryCode_def js_or_def split: if_splits)

text \<open>
  Claim C3, as amended. For a truthy error value, the classifier answers non-retryable
  exactly when \<open>error.code || error.status\<close> is 401, or is 403 while the message
  contains neither "API key" nor "API_KEY"; such a code is the error's \<open>code\<close> or its
  \<open>status\<close>. Every other such failure is retryable, and the loop then goes on with the
  next key; on a non-retryable failure it stops. A falsy error value (\<open>null\<close>,
  \<open>undefined\<close>, \<open>''\<close>, \<open>0\<close>, \<open>false\<close>, \<open>NaN\<close>) is non-retryable.
\<close>

theorem C3_retryability:
  "(\<not> isFalsy error \<longrightarrow>
      (\<not> isRetryableError error) =
        (retryCode error = JNum 401
         \<or> (retryCode error = JNum 403 \<and> \<not> js_includes (retryMessage error) (js ''API key'')
             \<and> \<not> js_includes (retryMessage error) (js ''API_KEY''))))
   \<and> (\<not> isFalsy error \<and> \<not> isRetryableError error \<longrightarrow>
        prop_code error = JNum 401 \<or> prop_status error = JNum 401
        \<or> ((prop_code error = JNum 403 \<or> prop_status error = JNum 403)
            \<and> \<not> js_includes (retryMessage error) (js ''API key'')
            \<and> \<not> js_includes (retryMessage error) (js ''API_KEY'')))
   \<and> (isFalsy error \<longrightarrow> \<not> isRetryableError error)
   \<and> (fst (attempt (headWritten trace) key) = Inl error \<and> isRetryableError error \<longrightarrow>
        pollKeys attempt (key # rest) lastError triedKeys trace =
        pollKeys attempt rest error (triedKeys @ [key_id key])
          (trace @ failedIteration (attempt (headWritten trace)) key))
   \<and> (fst (attempt (headWritten trace) key) = Inl error \<and> \<not> isRetryableError error \<longrightarrow>
        pollKeys attempt (key # rest) lastError triedKeys trace =
        AfterLoop error (triedKeys @ [key_id key])
          (trace @ failedIteration (attempt (headWritten trace)) key))"
proof (intro conjI impI)
  assume "\<not> isFalsy error"
  then show "(\<not> isRetryableError error) =
        (retryCode error = JNum 401
         \<or> (retryCode error = JNum 403 \<and> \<not> js_includes (retryMessage error) (js ''API key'')
             \<and> \<not> js_includes (retryMessage error) (js ''API_KEY'')))"
    by (auto simp: isRetryableError_iff)
next
  assume "\<not> isFalsy error \<and> \<not> isRetryableError error"
  then have "retryCode error = JNum 401
         \<or> (retryCode error = JNum 403 \<and> \<not> js_includes (retryMessage error) (js ''API key'')
             \<and> \<not> js_includes (retryMessage error) (js ''API_KEY''))"
    by (auto simp: isRetryableError_iff)
  then show "prop_code error = JNum 401 \<or> prop_status error = JNum 401
        \<or> ((prop_code error = JNum 403 \<or> prop_status error = JNum 403)
            \<and> \<not> js_includes (retryMessage error) (js ''API key'')
            \<and> \<not> js_includes (retryMessage error) (js ''API_KEY''))"
    using retryCode_carried [of error 401] retryCode_carried [of error 403] by blast
next
  assume "isFalsy error"
  then show "\<not> isRetryableError error" by (simp add: isRetryableError_def)
next
  assume h: "fst (attempt (headWritten trace) key) = Inl error \<and> isRetryableError error"
  then have "failsRetryably (attempt (headWritten trace)) key"
    "thrownBy (attempt (headWritten trace)) key = error"
    by (simp_all add: failsRetryably_def thrownBy_def)
  then show "pollKeys attempt (key # rest) lastError triedKeys trace =
        pollKeys attempt rest error (triedKeys @ [key_id key])
          (trace @ failedIteration (attempt (headWritten trace)) key)"
    using pollKeys_fail_step [where attempt = attempt and trace = trace and key = key
        and rest = rest and lastError = lastError and triedKeys = triedKeys]
    by simp
next
  assume h: "fst (attempt (headWritten trace) key) = Inl error \<and> \<not> isRetryableError error"
  then have "attempt (headWritten trace) key = (Inl error, snd (attempt (headWritten trace) key))"
    by (cases "attempt (headWritten trace) key") simp
  with h show "pollKeys attempt (key # rest) lastError triedKeys trace =
        AfterLoop error (triedKeys @ [key_id key])
          (trace @ failedIteration (attempt (headWritten trace)) key)"
    using pollKeys_stop_step [where attempt = attempt and trace = trace and key = key
        and error = error and fx = "snd (attempt (headWritten trace) key)" and rest = rest
        and lastError = lastError and triedKeys = triedKeys]
    by simp
qed

theorem C3_retryability_witness:
  "isRetryableError (newError (js ''quota exceeded''))
   \<and> \<not> isRetryableError (JsError (js ''unauthorized'') (js ''Error: unauthorized'') JUndefined (JNum 401))
   \<and> \<not> isRetryableError (JsError (js ''forbidden'') (js ''Error: forbidden'') (JNum 403) JUndefined)
   \<and> isRetryableError (JsError (js ''API key expired'') (js ''Error: API key expired'') JUndefined (JNum 403))
   \<and> isRetryableError thrown_boom
   \<and> \<not> isRetryableError thrown_zero \<and> \<not> isRetryableError thrown_empty_string
   \<and> \<not> isRetryableError thrown_false \<and> \<not> isRetryableError thrown_NaN
   \<and> pollKeys quota_attempt example_keys Nullish [] [] =
       pollKeys quota_attempt (tl example_keys) (newError (js ''quota exceeded'')) [js ''1'']
         (failedIteration (quota_attempt False) (hd example_keys))
   \<and> pollKeys zero_attempt example_keys Nullish [] [] =
       AfterLoop thrown_zero [js ''1''] (failedIteration (zero_attempt False) (hd example_keys))"
proof -
  have nh: "headWritten [] = False" by (simp add: headWritten_def)
  note classifier = C3_retryability [where attempt = quota_attempt and key = "hd example_keys"
      and rest = "tl example_keys" and lastError = Nullish and triedKeys = "[]" and trace = "[]"]
  have r: "isRetryableError (newError (js ''quota exceeded''))"
    using classifier [where error = "newError (js ''quota exceeded'')"]
    by (simp add: quota_error_facts)
  have a: "pollKeys quota_attempt example_keys Nullish [] [] =
       pollKeys quota_attempt (tl example_keys) (newError (js ''quota exceeded'')) [js ''1'']
         (failedIteration (quota_attempt False) (hd example_keys))"
    using C3_retryability [where error = "newError (js ''quota exceeded'')" and attempt = quota_attempt
        and key = "hd example_keys" and rest = "tl example_keys" and lastError = Nullish
        and triedKeys = "[]" and trace = "[]"] r
    by (simp add: quota_attempt_def example_keys_def nh)
  have z: "\<not> isRetryableError thrown_zero"
    using classifier [where error = thrown_zero] by (simp add: thrown_zero_def)
  have b: "pollKeys zero_attempt example_keys Nullish [] [] =
       AfterLoop thrown_zero [js ''1''] (failedIteration (zero_attempt False) (hd example_keys))"
    using C3_retryability [where error = thrown_zero and attempt = zero_attempt
        and key = "hd example_keys" and rest = "tl example_keys" and lastError = Nullish
        and triedKeys = "[]" and trace = "[]"] z
    by (simp add: zero_attempt_def thrown_zero_def example_keys_def nh)
  have c: "\<not> isRetryableError (JsError (js ''unauthorized'') (js ''Error: unauthorized'') JUndefined (JNum 401))"
    using classifier [where error = "JsError (js ''unauthorized'') (js ''Error: unauthorized'') JUndefined (JNum 401)"]
    by (simp add: retryCode_def js_or_def)
  have d: "\<not> isRetryableError (JsError (js ''forbidden'') (js ''Error: forbidden'') (JNum 403) JUndefined)"
    using classifier [where error = "JsError (js ''forbidden'') (js ''Error: forbidden'') (JNum 403) JUndefined"]
    by (simp add: retryCode_def retryMessage_def js_or_def js_def)
  have e: "isRetryableError (JsError (js ''API key expired'') (js ''Error: API key expired'') JUndefined (JNum 403))"
    using classifier [where error = "JsError (js ''API key expired'') (js ''Error: API key expired'') JUndefined (JNum 403)"]
    by (simp add: retryCode_def retryMessage_def js_or_def js_def)
  have f: "isRetryableError thrown_boom"
    using classifier [where error = thrown_boom]
    by (simp add: thrown_boom_def retryCode_def js_or_def)
  have g: "\<not> isRetryableError thrown_empty_string" "\<not> isRetryableError thrown_false"
    "\<not> isRetryableError thrown_NaN"
    using classifier [where error = thrown_empty_string]
      classifier [where error = thrown_false] classifier [where error = thrown_NaN]
    by (simp_all add: thrown_empty_string_def thrown_false_def thrown_NaN_def)
  show ?thesis using r a b c d e f g z by simp
qed

text \<open>
  The claim as stated fails at \<open>null\<close> and at the number \<open>0\<close>: the classifier answers
  non-retryable for an error value that carries no code at all, and the loop stops there
  with a second key untried.
\<close>

theorem C3_counterexample:
  "\<not> isRetryableError Nullish
   \<and> prop_code Nullish = JUndefined \<and> prop_status Nullish = JUndefined
   \<and> pollKeys nullish_attempt
       [\<lparr>key_id = js ''1'', api_key = js ''A''\<rparr>, \<lparr>key_id = js ''2'', api_key = js ''B''\<rparr>] Nullish [] []
     = AfterLoop Nullish [js ''1''] [UpdateKeyUsage (js ''1''), LogApiCall (js ''1'') 500 []]
   \<and> \<not> isRetryableError thrown_zero
   \<and> prop_code thrown_zero = JUndefined \<and> prop_status thrown_zero = JUndefined
   \<and> pollKeys zero_attempt
       [\<lparr>key_id = js ''1'', api_key = js ''A''\<rparr>, \<lparr>key_id = js ''2'', api_key = js ''B''\<rparr>] Nullish [] []
     = AfterLoop thrown_zero [js ''1''] [UpdateKeyUsage (js ''1''), LogApiCall (js ''1'') 500 (js ''0'')]"
  by (simp add: isRetryableError_def nullish_attempt_def zero_attempt_def thrown_zero_def errorMsgOf_def
      failureStatusCode_def js_def pollKeys.simps Let_def)

subsection \<open>Strategy selection\<close>

text \<open>
  The current edge handler follows the table of claim C4 in every row, and only the two
  streaming strategies answer with a stream.
\<close>

lemma attempt_edge_table:
  "attempt_edge up True \<lparr>enabled = True, fake_stream_enabled = False\<rparr> geminiRequest mdl key
     = handleRealStream up (api_key key) geminiRequest mdl"
  "attempt_edge up True \<lparr>enabled = False, fake_stream_enabled = True\<rparr> geminiRequest mdl key
     = handleFakeStream up (api_key key) geminiRequest mdl"
  "attempt_edge up True \<lparr>enabled = False, fake_stream_enabled = False\<rparr> geminiRequest mdl key
     = handleNonStream up (api_key key) geminiRequest mdl"
  "attempt_edge up True \<lparr>enabled = True, fake_stream_enabled = True\<rparr> geminiRequest mdl key
     = handleRealStream up (api_key key) geminiRequest mdl"
  "attempt_edge up False streamingConfig geminiRequest mdl key
     = handleNonStream up (api_key key) geminiRequest mdl"
  by (simp_all add: attempt_edge_def selectStrategy_def)

lemma strategy_results:
  "fst (handleNonStream up apiKey geminiRequest mdl) \<noteq> Inr (StreamResponse body)"
  "fst (handleRealStream up apiKey geminiRequest mdl) \<noteq> Inr (CompletionResult completion)"
  "fst (handleFakeStream up apiKey geminiRequest mdl) \<noteq> Inr (CompletionResult completion)"
  by (simp_all add: handleNonStream_def handleRealStream_def handleFakeStream_def
      split: sum.splits prod.splits)

text \<open>
  Claim C4 at its failing inputs. With streaming intent and both flags set, the earlier
  edge handler makes the buffered call and answers with the re-chunked text (the current
  one opens the upstream stream). With streaming intent and the \<open>enabled\<close> flag off,
  completions.ts does not forward the request and streams the upstream stream itself,
  whatever the other flag.
\<close>

theorem C4_strategy_at_failing_inputs:
  "attempt_edge_old up True \<lparr>enabled = True, fake_stream_enabled = True\<rparr> geminiRequest mdl key
     = handleFakeStream_old up (api_key key) geminiRequest mdl
   \<and> handler_edge_old streaming_upstream False (\<lambda>i. 0) \<lparr>enabled = True, fake_stream_enabled = True\<rparr>
       (Inr [\<lparr>key_id = js ''2'', api_key = js ''B''\<rparr>]) stream_request
     = (EventStream (FakeStreamBody_old (js ''gemini-pro'') (js ''Hello'')),
        [UpdateKeyUsage (js ''2''), CallGenerateContent (js ''B''), LogApiCall (js ''2'') 200 []])
   \<and> handler_edge streaming_upstream (\<lambda>ks. ks) False (\<lambda>i. 0) (js ''t'') \<lparr>enabled = True, fake_stream_enabled = True\<rparr>
       (Inr [\<lparr>key_id = js ''2'', api_key = js ''B''\<rparr>]) stream_request
     = (EventStream (RealStreamBody (js ''gemini-pro'') [js ''Hel'', [], js ''lo''] None),
        [UpdateKeyUsage (js ''2''), CallGenerateContentStream (js ''B''), LogApiCall (js ''2'') 200 []])
   \<and> handler_completions streaming_upstream False (\<lambda>i. 0) \<lparr>enabled = False, fake_stream_enabled = fake\<rparr>
       forward (Inr [\<lparr>key_id = js ''2'', api_key = js ''B''\<rparr>]) stream_request
     = (WrittenToRes,
        [UpdateKeyUsage (js ''2''), CallGenerateContentStream (js ''B''), ResWriteHead,
         ResWrite (js ''Hel''), ResWrite (js ''lo''), ResWrite (js ''[DONE]''), ResEnd,
         LogApiCall (js ''2'') 200 []])"
proof (intro conjI)
  show "attempt_edge_old up True \<lparr>enabled = True, fake_stream_enabled = True\<rparr> geminiRequest mdl key
     = handleFakeStream_old up (api_key key) geminiRequest mdl"
    by (simp add: attempt_edge_old_def)
next
  show "handler_edge_old streaming_upstream False (\<lambda>i. 0) \<lparr>enabled = True, fake_stream_enabled = True\<rparr>
       (Inr [\<lparr>key_id = js ''2'', api_key = js ''B''\<rparr>]) stream_request
     = (EventStream (FakeStreamBody_old (js ''gemini-pro'') (js ''Hello'')),
        [UpdateKeyUsage (js ''2''), CallGenerateContent (js ''B''), LogApiCall (js ''2'') 200 []])"
    by (simp add: handler_edge_old_def attempt_edge_old_def handleFakeStream_old_def
        streaming_upstream_def stream_request_def isStreamOf_def js_or_def modelOrDefault_def
        pollKeys.simps headWritten_def Let_def)
next
  show "handler_edge streaming_upstream (\<lambda>ks. ks) False (\<lambda>i. 0) (js ''t'') \<lparr>enabled = True, fake_stream_enabled = True\<rparr>
       (Inr [\<lparr>key_id = js ''2'', api_key = js ''B''\<rparr>]) stream_request
     = (EventStream (RealStreamBody (js ''gemini-pro'') [js ''Hel'', [], js ''lo''] None),
        [UpdateKeyUsage (js ''2''), CallGenerateContentStream (js ''B''), LogApiCall (js ''2'') 200 []])"
    by (simp add: handler_edge_def attempt_edge_def selectStrategy_def handleRealStream_def
        streaming_upstream_def stream_request_def isStreamOf_def js_or_def modelOrDefault_def
        pollKeys.simps headWritten_def Let_def js_def)
next
  show "handler_completions streaming_upstream False (\<lambda>i. 0) \<lparr>enabled = False, fake_stream_enabled = fake\<rparr>
       forward (Inr [\<lparr>key_id = js ''2'', api_key = js ''B''\<rparr>]) stream_request
     = (WrittenToRes,
        [UpdateKeyUsage (js ''2''), CallGenerateContentStream (js ''B''), ResWriteHead,
         ResWrite (js ''Hel''), ResWrite (js ''lo''), ResWrite (js ''[DONE]''), ResEnd,
         LogApiCall (js ''2'') 200 []])"
    by (simp add: handler_completions_def handler_node_def handler_node_from_def callGeminiWithKey_def
        streaming_upstream_def stream_request_def isStreamOf_def js_or_def modelOrDefault_def
        pollKeys.simps headWritten_def Let_def js_def)
qed

subsection \<open>Generation parameters\<close>

text \<open>
  Claim C10. The converter takes the default whenever \<open>max_tokens\<close> or \<open>temperature\<close>
  is falsy: a request with temperature 0 is converted with 0.7, one with \<open>max_tokens\<close> 0
  with 2048, and no request is converted with temperature 0, neither by the converter
  nor in the request the edge handler sends.
\<close>

theorem C10_falsy_defaults:
  "maxOutputTokens (convertOpenAItoGemini disguiseEnabled rand openaiRequest)
     = (if truthy (max_tokens openaiRequest) then max_tokens openaiRequest else JNum 2048)
   \<and> generation_temperature (convertOpenAItoGemini disguiseEnabled rand openaiRequest)
     = (if truthy (temperature openaiRequest) then temperature openaiRequest else JNum 0.7)
   \<and> generation_temperature (convertOpenAItoGemini disguiseEnabled rand (openaiRequest\<lparr>temperature := JNum 0\<rparr>))
     = JNum 0.7
   \<and> maxOutputTokens (convertOpenAItoGemini disguiseEnabled rand (openaiRequest\<lparr>max_tokens := JNum 0\<rparr>))
     = JNum 2048
   \<and> generation_temperature (convertOpenAItoGemini disguiseEnabled rand openaiRequest) \<noteq> JNum 0
   \<and> generation_temperature (edgeRequest disguiseEnabled rand stamp openaiRequest) \<noteq> JNum 0"
  by (auto simp: convertOpenAItoGemini_def edgeRequest_def js_or_def Let_def)

subsection \<open>The credential pool\<close>

lemma fetchKeysFromDb_error: "fetchKeysFromDb (QueryReply True data) = Inr []"
  by (simp add: fetchKeysFromDb_def)

lemma lookupKeys_miss:
  assumes "\<not> cacheHit st" and "fetchKeysFromDb (db_query st 0) = Inr []"
  shows "fst (lookupKeys st) = Inr []"
  using assms
  by (auto simp: lookupKeys_def cacheHit_def split: sum.splits option.splits list.splits)

lemma getAll_miss_empty:
  assumes "\<not> cacheHit st" and "fetchKeysFromDb (db_query st 0) = Inr []"
  shows "fst (getAllAvailableGeminiKeys st) = Inl (newApiError 503 [])"
proof -
  obtain r c where l: "lookupKeys st = (r, c)" by (cases "lookupKeys st")
  with lookupKeys_miss [OF assms] have "r = Inr []" by simp
  with l show ?thesis by (simp add: getAllAvailableGeminiKeys_def)
qed

lemma getAll_never_empty: "fst (getAllAvailableGeminiKeys st) \<noteq> Inr []"
proof -
  obtain r c where l: "lookupKeys st = (r, c)" by (cases "lookupKeys st")
  show ?thesis
    using l by (cases r) (auto simp: getAllAvailableGeminiKeys_def)
qed

lemma isApiError_newApiError: "isApiError (newApiError sc msg)"
  by (simp add: newApiError_def Let_def)

lemma getAll_shape:
  "(case fst (getAllAvailableGeminiKeys st) of Inl error \<Rightarrow> isApiError error | Inr keys \<Rightarrow> keys \<noteq> [])"
proof -
  obtain r c where l: "lookupKeys st = (r, c)" by (cases "lookupKeys st")
  show ?thesis
    using l by (cases r) (auto simp: getAllAvailableGeminiKeys_def isApiError_newApiError)
qed

lemma getAll_throws:
  assumes "\<not> cacheHit st" and "\<forall>n. db_query st n = QueryThrows e" and "\<not> isApiError e"
  shows "fst (getAllAvailableGeminiKeys st) = Inl (newApiError 500 [])"
proof -
  have f: "\<And>n. fetchKeysFromDb (db_query st n) = Inl e"
    using assms(2) by (simp add: fetchKeysFromDb_def)
  have "fst (lookupKeys st) = Inl e"
    using assms(1) f
    by (auto simp: lookupKeys_def cacheHit_def split: sum.splits option.splits list.splits)
  then obtain c where "lookupKeys st = (Inl e, c)" by (cases "lookupKeys st") simp
  then show ?thesis using assms(3) by (simp add: getAllAvailableGeminiKeys_def)
qed

text \<open>
  Claim C7, as amended. The listing operation never returns an empty list: it returns a
  non-empty list or throws an \<open>ApiError\<close>. \<open>fetchKeysFromDb\<close> turns a query that reports an
  error into the empty list, so that, unless a non-empty cache entry is read, such a
  failure throws the same \<open>ApiError(503)\<close> as a query that finds no eligible key. Only a
  storage call that itself throws (something other than an \<open>ApiError\<close>) surfaces as a
  different error, \<open>ApiError(500)\<close>. A non-empty cache entry is returned without asking
  the database, and a reload that finds keys stores them in the cache.
\<close>

theorem C7_pool_lookup:
  "fst (getAllAvailableGeminiKeys st) \<noteq> Inr []
   \<and> (case fst (getAllAvailableGeminiKeys st) of Inl error \<Rightarrow> isApiError error | Inr keys \<Rightarrow> keys \<noteq> [])
   \<and> fetchKeysFromDb (QueryReply True data) = Inr []
   \<and> (\<not> cacheHit st \<and> db_query st 0 = QueryReply True data
        \<longrightarrow> fst (getAllAvailableGeminiKeys st) = Inl (newApiError 503 []))
   \<and> (\<not> cacheHit st \<and> (db_query st 0 = QueryReply False (Some []) \<or> db_query st 0 = QueryReply False None)
        \<longrightarrow> fst (getAllAvailableGeminiKeys st) = Inl (newApiError 503 []))
   \<and> (\<not> cacheHit st \<and> (\<forall>n. db_query st n = QueryThrows e) \<and> \<not> isApiError e
        \<longrightarrow> fst (getAllAvailableGeminiKeys st) = Inl (newApiError 500 []))
   \<and> (\<not> development st \<and> kv_get st = Inr (Some (k # ks))
        \<longrightarrow> getAllAvailableGeminiKeys st = (Inr (k # ks), None))
   \<and> (\<not> development st \<and> (kv_get st = Inr None \<or> kv_get st = Inr (Some []))
        \<and> db_query st 0 = QueryReply False (Some (k # ks)) \<and> kv_setex st = None
        \<longrightarrow> getAllAvailableGeminiKeys st = (Inr (k # ks), Some (k # ks)))"
proof (intro conjI impI)
  show "fst (getAllAvailableGeminiKeys st) \<noteq> Inr []" by (rule getAll_never_empty)
  show "case fst (getAllAvailableGeminiKeys st) of Inl error \<Rightarrow> isApiError error | Inr keys \<Rightarrow> keys \<noteq> []"
    by (rule getAll_shape)
  show "fetchKeysFromDb (QueryReply True data) = Inr []" by (rule fetchKeysFromDb_error)
next
  assume "\<not> cacheHit st \<and> db_query st 0 = QueryReply True data"
  then show "fst (getAllAvailableGeminiKeys st) = Inl (newApiError 503 [])"
    by (intro getAll_miss_empty) (simp_all add: fetchKeysFromDb_def)
next
  assume "\<not> cacheHit st \<and> (db_query st 0 = QueryReply False (Some []) \<or> db_query st 0 = QueryReply False None)"
  then show "fst (getAllAvailableGeminiKeys st) = Inl (newApiError 503 [])"
    by (intro getAll_miss_empty) (auto simp: fetchKeysFromDb_def)
next
  assume "\<not> cacheHit st \<and> (\<forall>n. db_query st n = QueryThrows e) \<and> \<not> isApiError e"
  then show "fst (getAllAvailableGeminiKeys st) = Inl (newApiError 500 [])"
    using getAll_throws [of st e] by blast
next
  assume "\<not> development st \<and> kv_get st = Inr (Some (k # ks))"
  then show "getAllAvailableGeminiKeys st = (Inr (k # ks), None)"
    by (simp add: getAllAvailableGeminiKeys_def lookupKeys_def)
next
  assume "\<not> development st \<and> (kv_get st = Inr None \<or> kv_get st = Inr (Some []))
        \<and> db_query st 0 = QueryReply False (Some (k # ks)) \<and> kv_setex st = None"
  then show "getAllAvailableGeminiKeys st = (Inr (k # ks), Some (k # ks))"
    by (auto simp: getAllAvailableGeminiKeys_def lookupKeys_def fetchKeysFromDb_def)
qed

theorem C7_pool_lookup_witness:
  "fst (getAllAvailableGeminiKeys store_db_error) = Inl (newApiError 503 [])
   \<and> fst (getAllAvailableGeminiKeys store_db_empty) = Inl (newApiError 503 [])
   \<and> fst (getAllAvailableGeminiKeys (store_db_error\<lparr>db_query := \<lambda>n. QueryThrows Nullish\<rparr>))
       = Inl (newApiError 500 [])
   \<and> getAllAvailableGeminiKeys (store_db_error\<lparr>kv_get := Inr (Some example_keys)\<rparr>)
       = (Inr example_keys, None)
   \<and> getAllAvailableGeminiKeys (store_db_error\<lparr>db_query := \<lambda>n. QueryReply False (Some example_keys)\<rparr>)
       = (Inr example_keys, Some example_keys)"
proof -
  have a: "fst (getAllAvailableGeminiKeys store_db_error) = Inl (newApiError 503 [])"
    using C7_pool_lookup [where st = store_db_error and data = None]
    by (simp add: store_db_error_def cacheHit_def)
  have b: "fst (getAllAvailableGeminiKeys store_db_empty) = Inl (newApiError 503 [])"
    using C7_pool_lookup [where st = store_db_empty]
    by (simp add: store_db_empty_def cacheHit_def)
  have c: "fst (getAllAvailableGeminiKeys (store_db_error\<lparr>db_query := \<lambda>n. QueryThrows Nullish\<rparr>))
       = Inl (newApiError 500 [])"
    using C7_pool_lookup [where st = "store_db_error\<lparr>db_query := \<lambda>n. QueryThrows Nullish\<rparr>" and e = Nullish]
    by (simp add: store_db_error_def cacheHit_def)
  have d: "getAllAvailableGeminiKeys (store_db_error\<lparr>kv_get := Inr (Some example_keys)\<rparr>)
       = (Inr example_keys, None)"
    using C7_pool_lookup [where st = "store_db_error\<lparr>kv_get := Inr (Some example_keys)\<rparr>"
        and k = "hd example_keys" and ks = "tl example_keys"]
    by (simp add: store_db_error_def example_keys_def)
  have e: "getAllAvailableGeminiKeys (store_db_error\<lparr>db_query := \<lambda>n. QueryReply False (Some example_keys)\<rparr>)
       = (Inr example_keys, Some example_keys)"
    using C7_pool_lookup [where st = "store_db_error\<lparr>db_query := \<lambda>n. QueryReply False (Some example_keys)\<rparr>"
        and k = "hd example_keys" and ks = "tl example_keys"]
    by (simp add: store_db_error_def example_keys_def)
  show ?thesis using a b c d e by simp
qed

text \<open>
  The claim as stated fails: with no cache entry, a storage query that reports an error is
  read as the empty list and the caller gets the very error of an empty pool.
\<close>

theorem C7_counterexample:
  "fetchKeysFromDb (db_query store_db_error 0) = Inr []
   \<and> fst (getAllAvailableGeminiKeys store_db_error) = Inl (newApiError 503 [])
   \<and> fst (getAllAvailableGeminiKeys store_db_error) = fst (getAllAvailableGeminiKeys store_db_empty)"
  by (simp add: getAllAvailableGeminiKeys_def lookupKeys_def fetchKeysFromDb_def
      store_db_error_def store_db_empty_def)

subsection \<open>The models endpoint\<close>

lemma modelsHandler_GET_shape:
  "\<exists>kept. modelsHandler (js ''GET'') keyQuery fetch now = (200, ModelList (map (toModelEntry now) kept))"
proof -
  have e: "\<exists>kept. (200::int, ModelList []) = (200, ModelList (map (toModelEntry now) kept))"
    by (rule exI [of _ "[]"]) simp
  show ?thesis
    using e
    by (auto simp: modelsHandler_def
        split: query_result.splits option.splits list.splits fetch_outcome.splits google_models.splits)
qed

lemma toModelEntry_fields:
  "entry_object (toModelEntry now name) = js ''model''"
  "owned_by (toModelEntry now name) = js ''google''"
  "created (toModelEntry now name) = now"
  "entry_id (toModelEntry now name) = js_replace name (js ''models/'') []"
  "root (toModelEntry now name) = entry_id (toModelEntry now name)"
  "permission (toModelEntry now name) = []"
  "parent (toModelEntry now name) = JNull"
  by (simp_all add: toModelEntry_def Let_def)

text \<open>A GET request: the shape of the answer and its cases.\<close>

lemma modelsHandler_GET:
  assumes "reqMethod = js ''GET''"
  shows "fst (modelsHandler reqMethod keyQuery fetch now) = 200
   \<and> (\<exists>entries. snd (modelsHandler reqMethod keyQuery fetch now) = ModelList entries
         \<and> (\<forall>entry\<in>set entries. entry_object entry = js ''model'' \<and> owned_by entry = js ''google''
               \<and> created entry = now \<and> root entry = entry_id entry
               \<and> permission entry = [] \<and> parent entry = JNull))
   \<and> (keyQuery = QueryThrows e \<or> keyQuery = QueryReply True rows \<or> keyQuery = QueryReply False None
        \<or> keyQuery = QueryReply False (Some [])
        \<longrightarrow> snd (modelsHandler reqMethod keyQuery fetch now) = ModelList [])
   \<and> (keyQuery = QueryReply False (Some (apiKey # others))
        \<and> (fetch apiKey = FetchThrows \<or> fetch apiKey = FetchResponse False body
            \<or> fetch apiKey = FetchResponse True None)
        \<longrightarrow> snd (modelsHandler reqMethod keyQuery fetch now) = ModelList [])
   \<and> (keyQuery = QueryReply False (Some (apiKey # others))
        \<and> fetch apiKey = FetchResponse True (Some (ModelsArray names))
        \<and> filterGemini names = Some kept
        \<longrightarrow> snd (modelsHandler reqMethod keyQuery fetch now) = ModelList (map (toModelEntry now) kept)
            \<and> map entry_id (map (toModelEntry now) kept) = map (\<lambda>name. js_replace name (js ''models/'') []) kept)"
proof (intro conjI impI)
  obtain kept0 where k: "modelsHandler reqMethod keyQuery fetch now = (200, ModelList (map (toModelEntry now) kept0))"
    using modelsHandler_GET_shape [of keyQuery fetch now] assms by auto
  show "fst (modelsHandler reqMethod keyQuery fetch now) = 200" by (simp add: k)
  show "\<exists>entries. snd (modelsHandler reqMethod keyQuery fetch now) = ModelList entries
         \<and> (\<forall>entry\<in>set entries. entry_object entry = js ''model'' \<and> owned_by entry = js ''google''
               \<and> created entry = now \<and> root entry = entry_id entry
               \<and> permission entry = [] \<and> parent entry = JNull)"
    by (rule exI [of _ "map (toModelEntry now) kept0"]) (auto simp: k toModelEntry_fields)
next
  assume "keyQuery = QueryThrows e \<or> keyQuery = QueryReply True rows \<or> keyQuery = QueryReply False None
        \<or> keyQuery = QueryReply False (Some [])"
  then show "snd (modelsHandler reqMethod keyQuery fetch now) = ModelList []"
    using assms by (auto simp: modelsHandler_def)
next
  assume "keyQuery = QueryReply False (Some (apiKey # others))
        \<and> (fetch apiKey = FetchThrows \<or> fetch apiKey = FetchResponse False body
            \<or> fetch apiKey = FetchResponse True None)"
  then show "snd (modelsHandler reqMethod keyQuery fetch now) = ModelList []"
    using assms by (auto simp: modelsHandler_def)
next
  assume h: "keyQuery = QueryReply False (Some (apiKey # others))
        \<and> fetch apiKey = FetchResponse True (Some (ModelsArray names))
        \<and> filterGemini names = Some kept"
  then show "snd (modelsHandler reqMethod keyQuery fetch now) = ModelList (map (toModelEntry now) kept)"
    using assms by (simp add: modelsHandler_def)
  show "map entry_id (map (toModelEntry now) kept) = map (\<lambda>name. js_replace name (js ''models/'') []) kept"
    by (simp add: toModelEntry_fields comp_def)
qed

lemma modelsHandler_other_method:
  "reqMethod \<noteq> js ''GET'' \<Longrightarrow> modelsHandler reqMethod keyQuery fetch now = (405, ErrorMessage (js ''Method not allowed''))"
  by (simp add: modelsHandler_def)

text \<open>
  Claim C9, as amended. A GET request to the models endpoint is always answered with
  status 200 and a list: the empty list when the key query throws, reports an error or
  finds no key, when \<open>fetch\<close> throws, answers not-ok or its body cannot be read; and on
  success one entry per upstream model whose name contains "gemini", with \<open>object\<close>
  "model", \<open>owned_by\<close> "google", the current time as \<open>created\<close>, and the name without
  "models/" as \<open>id\<close> and \<open>root\<close>. A request with any other method is answered 405.
\<close>

theorem C9_models_listing:
  "(reqMethod = js ''GET'' \<longrightarrow>
      fst (modelsHandler reqMethod keyQuery fetch now) = 200
      \<and> (\<exists>entries. snd (modelsHandler reqMethod keyQuery fetch now) = ModelList entries
            \<and> (\<forall>entry\<in>set entries. entry_object entry = js ''model'' \<and> owned_by entry = js ''google''
                  \<and> created entry = now \<and> root entry = entry_id entry
                  \<and> permission entry = [] \<and> parent entry = JNull))
      \<and> (keyQuery = QueryThrows e \<or> keyQuery = QueryReply True rows \<or> keyQuery = QueryReply False None
           \<or> keyQuery = QueryReply False (Some [])
           \<longrightarrow> snd (modelsHandler reqMethod keyQuery fetch now) = ModelList [])
      \<and> (keyQuery = QueryReply False (Some (apiKey # others))
           \<and> (fetch apiKey = FetchThrows \<or> fetch apiKey = FetchResponse False body
               \<or> fetch apiKey = FetchResponse True None)
           \<longrightarrow> snd (modelsHandler reqMethod keyQuery fetch now) = ModelList [])
      \<and> (keyQuery = QueryReply False (Some (apiKey # others))
           \<and> fetch apiKey = FetchResponse True (Some (ModelsArray names))
           \<and> filterGemini names = Some kept
           \<longrightarrow> snd (modelsHandler reqMethod keyQuery fetch now) = ModelList (map (toModelEntry now) kept)
               \<and> map entry_id (map (toModelEntry now) kept) = map (\<lambda>name. js_replace name (js ''models/'') []) kept))
   \<and> (reqMethod \<noteq> js ''GET'' \<longrightarrow>
        modelsHandler reqMethod keyQuery fetch now = (405, ErrorMessage (js ''Method not allowed'')))"
  using modelsHandler_GET [of reqMethod keyQuery fetch now e rows apiKey others body names kept]
    modelsHandler_other_method [of reqMethod keyQuery fetch now]
  by blast

lemma example_filter:
  "filterGemini [JStr (js ''models/gemini-pro''), JStr (js ''models/embed''), JUndefined] = Some [js ''models/gemini-pro'']"
  by (simp add: js_def)

lemma example_replace: "js_replace (js ''models/gemini-pro'') (js ''models/'') [] = js ''gemini-pro''"
  by (simp add: js_def)

lemma post_is_not_get: "js ''POST'' \<noteq> js ''GET''"
  by (simp add: js_def)

theorem C9_models_listing_witness:
  "modelsHandler (js ''GET'') (QueryReply False (Some [js ''A''])) example_fetch 1700000000
     = (200, ModelList [\<lparr>entry_id = js ''gemini-pro'', entry_object = js ''model'', created = 1700000000,
                        owned_by = js ''google'', permission = [], root = js ''gemini-pro'', parent = JNull\<rparr>])
   \<and> modelsHandler (js ''GET'') (QueryReply True None) example_fetch 1700000000 = (200, ModelList [])
   \<and> modelsHandler (js ''GET'') (QueryReply False (Some [js ''A''])) (\<lambda>apiKey. FetchThrows) 1700000000
       = (200, ModelList [])
   \<and> modelsHandler (js ''POST'') (QueryReply False (Some [js ''A''])) example_fetch 1700000000
       = (405, ErrorMessage (js ''Method not allowed''))"
proof -
  have a: "modelsHandler (js ''GET'') (QueryReply False (Some [js ''A''])) example_fetch 1700000000
     = (200, ModelList [\<lparr>entry_id = js ''gemini-pro'', entry_object = js ''model'', created = 1700000000,
                        owned_by = js ''google'', permission = [], root = js ''gemini-pro'', parent = JNull\<rparr>])"
    using C9_models_listing [where reqMethod = "js ''GET''" and keyQuery = "QueryReply False (Some [js ''A''])" and fetch = example_fetch
        and now = 1700000000 and apiKey = "js ''A''" and others = "[]"
        and names = "[JStr (js ''models/gemini-pro''), JStr (js ''models/embed''), JUndefined]"
        and kept = "[js ''models/gemini-pro'']"]
      example_filter example_replace
    by (simp add: example_fetch_def toModelEntry_def prod_eq_iff Let_def)
  have b: "modelsHandler (js ''GET'') (QueryReply True None) example_fetch 1700000000 = (200, ModelList [])"
    using C9_models_listing [where reqMethod = "js ''GET''" and keyQuery = "QueryReply True None" and fetch = example_fetch
        and now = 1700000000 and rows = None]
    by (simp add: prod_eq_iff)
  have c: "modelsHandler (js ''GET'') (QueryReply False (Some [js ''A''])) (\<lambda>apiKey. FetchThrows) 1700000000
       = (200, ModelList [])"
    using C9_models_listing [where reqMethod = "js ''GET''" and keyQuery = "QueryReply False (Some [js ''A''])" and fetch = "\<lambda>apiKey. FetchThrows"
        and now = 1700000000 and apiKey = "js ''A''" and others = "[]"]
    by (simp add: prod_eq_iff)
  have d: "modelsHandler (js ''POST'') (QueryReply False (Some [js ''A''])) example_fetch 1700000000
       = (405, ErrorMessage (js ''Method not allowed''))"
    using C9_models_listing [where reqMethod = "js ''POST''" and keyQuery = "QueryReply False (Some [js ''A''])"
        and fetch = example_fetch and now = 1700000000] post_is_not_get
    by simp
  show ?thesis using a b c d by simp
qed

text \<open>
  The claim as stated fails for a request whose method is not GET: the answer is the
  error status 405, not a 200 list.
\<close>

theorem C9_counterexample:
  "modelsHandler (js ''POST'') (QueryReply False (Some [js ''A''])) example_fetch 1700000000
     = (405, ErrorMessage (js ''Method not allowed''))"
  by (simp add: modelsHandler_def js_def)

subsection \<open>The disguise token\<close>

lemma convertMessage_unchanged:
  "\<not> (disguiseEnabled \<and> role msg = js ''user'' \<and> index = firstUserMessageIndex)
   \<Longrightarrow> convertMessage disguiseEnabled rand firstUserMessageIndex msg index = convertUnchanged msg"
  by (auto simp: convertMessage_def convertUnchanged_def Let_def)

lemma convertMessage_first_user:
  "role msg = js ''user''
   \<Longrightarrow> convertMessage True rand index msg index
       = Some \<lparr>gemini_role = js ''user'',
               gemini_text = content msg @ js '' ['' @ generateDisguiseString rand @ js '']''\<rparr>"
proof -
  have "js ''user'' \<noteq> js ''system''" by (simp add: js_def)
  then show "role msg = js ''user'' \<Longrightarrow> ?thesis"
    by (simp add: convertMessage_def Let_def)
qed

lemma findIndex_ge: "- 1 \<le> findIndex p xs"
  by (induction xs) (auto simp: Let_def)

lemma findIndex_none: "\<forall>x\<in>set xs. \<not> p x \<Longrightarrow> findIndex p xs = - 1"
  by (induction xs) (auto simp: Let_def)

lemma findIndex_first:
  "\<forall>x\<in>set pre. \<not> p x \<Longrightarrow> p m \<Longrightarrow> findIndex p (pre @ m # post) = int (length pre)"
  by (induction pre) (auto simp: Let_def)

lemma mapped_unchanged:
  assumes "\<forall>(index, msg)\<in>set (List.enumerate k msgs).
             \<not> (d \<and> role msg = js ''user'' \<and> int index = f)"
  shows "map (\<lambda>(index, msg). convertMessage d rand f msg (int index)) (List.enumerate k msgs)
         = map convertUnchanged msgs"
  using assms
  by (induction msgs arbitrary: k) (simp_all add: convertMessage_unchanged)

lemma map_filter_id_map: "List.map_filter (\<lambda>c. c) (map g xs) = List.map_filter g xs"
  by (induction xs) (simp_all split: option.splits)

lemma map_filter_app: "List.map_filter g (xs @ ys) = List.map_filter g xs @ List.map_filter g ys"
  by (induction xs) (simp_all split: option.splits)

lemma contents_unchanged:
  assumes "\<not> d \<or> (\<forall>m\<in>set (messages req). role m \<noteq> js ''user'')"
  shows "contents (convertOpenAItoGemini d rand req) = List.map_filter convertUnchanged (messages req)"
proof -
  have "map (\<lambda>(index, msg). convertMessage d rand (findIndex (\<lambda>m. role m = js ''user'') (messages req)) msg (int index))
          (List.enumerate 0 (messages req))
        = map convertUnchanged (messages req)"
    using assms by (intro mapped_unchanged) (auto simp: in_set_enumerate_eq)
  then have "contents (convertOpenAItoGemini d rand req)
             = List.map_filter (\<lambda>c. c) (map convertUnchanged (messages req))"
    by (simp add: convertOpenAItoGemini_def Let_def)
  then show ?thesis
    by (simp only: map_filter_id_map)
qed

lemma contents_first_user:
  assumes "messages req = pre @ m # post" and "\<forall>p\<in>set pre. role p \<noteq> js ''user''" and "role m = js ''user''"
  shows "contents (convertOpenAItoGemini True rand req)
         = List.map_filter convertUnchanged pre
           @ [\<lparr>gemini_role = js ''user'',
               gemini_text = content m @ js '' ['' @ generateDisguiseString rand @ js '']''\<rparr>]
           @ List.map_filter convertUnchanged post"
proof -
  let ?f = "int (length pre)"
  let ?n = "length pre"
  have fi: "findIndex (\<lambda>m. role m = js ''user'') (messages req) = ?f"
    using assms by (simp add: findIndex_first)
  have z: "List.enumerate 0 (messages req)
           = List.enumerate 0 pre @ (?n, m) # List.enumerate (Suc ?n) post"
    by (simp add: assms(1) enumerate_append_eq)
  have a: "map (\<lambda>(index, msg). convertMessage True rand ?f msg (int index)) (List.enumerate 0 pre)
           = map convertUnchanged pre"
    using assms(2) by (intro mapped_unchanged) (auto simp: in_set_enumerate_eq)
  have b: "map (\<lambda>(index, msg). convertMessage True rand ?f msg (int index)) (List.enumerate (Suc ?n) post)
           = map convertUnchanged post"
    by (intro mapped_unchanged) (auto simp: in_set_enumerate_eq)
  have "map (\<lambda>(index, msg). convertMessage True rand ?f msg (int index)) (List.enumerate 0 (messages req))
        = map convertUnchanged pre
          @ Some \<lparr>gemini_role = js ''user'',
                   gemini_text = content m @ js '' ['' @ generateDisguiseString rand @ js '']''\<rparr>
          # map convertUnchanged post"
    using a b by (simp add: z convertMessage_first_user [OF assms(3)])
  then have "contents (convertOpenAItoGemini True rand req)
        = List.map_filter (\<lambda>c. c) (map convertUnchanged pre
          @ Some \<lparr>gemini_role = js ''user'',
                   gemini_text = content m @ js '' ['' @ generateDisguiseString rand @ js '']''\<rparr>
          # map convertUnchanged post)"
    by (simp add: convertOpenAItoGemini_def Let_def fi)
  then show ?thesis
    by (simp add: map_filter_app map_filter_id_map)
qed

lemma charAt_length: "0 \<le> i \<Longrightarrow> i < int (length s) \<Longrightarrow> length (charAt s i) = 1"
  by (simp add: charAt_def)

lemma disguise_chars_length: "length disguise_chars = 62"
  by (simp add: disguise_chars_def js_def)

lemma generateDisguiseString_length:
  assumes "\<forall>i<6. 0 \<le> rand i \<and> rand i < 62"
  shows "length (generateDisguiseString rand) = 6"
proof -
  have c: "\<And>i. i < 6 \<Longrightarrow> length (charAt disguise_chars (rand i)) = 1"
    using assms by (simp add: charAt_length disguise_chars_length)
  have u: "[0..<6] = [0, 1, 2, 3, 4, 5::nat]"
    by (simp add: upt_rec)
  show ?thesis
    by (simp add: generateDisguiseString_def u c)
qed


lemma requestTag_length: "length (requestTag stamp) = 14 + length stamp"
  by (simp add: requestTag_def js_def)

lemma enhanceMessages_last_user:
  "msgs \<noteq> [] \<Longrightarrow> role (last msgs) = js ''user''
   \<Longrightarrow> enhanceMessages stamp msgs
       = butlast msgs @ [(last msgs)\<lparr>content := content (last msgs) @ requestTag stamp\<rparr>]"
  by (simp add: enhanceMessages_def Let_def)

lemma enhanceMessages_other: "msgs = [] \<or> role (last msgs) \<noteq> js ''user'' \<Longrightarrow> enhanceMessages stamp msgs = msgs"
  by (auto simp: enhanceMessages_def Let_def)

text \<open>
  Claim C8, as amended. In the converter, with the disguise feature enabled and a message
  of role \<open>user\<close> in the list, exactly the first such message is converted with changed
  content: its content followed by a space and the token in brackets, which is 9 code
  units more, the token having 6. With the feature enabled and no message of role
  \<open>user\<close>, or with the feature disabled, every message is converted with its content as
  it is. Before converting, and whatever the flag, the edge handler appends a request tag
  (14 code units and the stamp) to the last message when its role is \<open>user\<close>, and leaves
  the list alone otherwise.
\<close>

theorem C8_disguise:
  "contents (convertOpenAItoGemini False rand req) = List.map_filter convertUnchanged (messages req)
   \<and> ((\<forall>msg\<in>set (messages req). role msg \<noteq> js ''user'')
        \<longrightarrow> contents (convertOpenAItoGemini True rand req) = List.map_filter convertUnchanged (messages req))
   \<and> (messages req = pre @ m # post \<and> (\<forall>p\<in>set pre. role p \<noteq> js ''user'') \<and> role m = js ''user''
        \<longrightarrow> contents (convertOpenAItoGemini True rand req)
            = List.map_filter convertUnchanged pre
              @ [\<lparr>gemini_role = js ''user'',
                  gemini_text = content m @ js '' ['' @ generateDisguiseString rand @ js '']''\<rparr>]
              @ List.map_filter convertUnchanged post)
   \<and> ((\<forall>i<6. 0 \<le> rand i \<and> rand i < 62)
        \<longrightarrow> length (generateDisguiseString rand) = 6
            \<and> length (content m @ js '' ['' @ generateDisguiseString rand @ js '']'') = length (content m) + 9)
   \<and> (msgs \<noteq> [] \<and> role (last msgs) = js ''user''
        \<longrightarrow> enhanceMessages stamp msgs
              = butlast msgs @ [(last msgs)\<lparr>content := content (last msgs) @ requestTag stamp\<rparr>]
            \<and> length (requestTag stamp) = 14 + length stamp)
   \<and> (msgs = [] \<or> role (last msgs) \<noteq> js ''user'' \<longrightarrow> enhanceMessages stamp msgs = msgs)
   \<and> edgeRequest disguiseEnabled rand stamp req
       = convertOpenAItoGemini disguiseEnabled rand (req\<lparr>messages := enhanceMessages stamp (messages req)\<rparr>)"
proof (intro conjI impI)
  show "contents (convertOpenAItoGemini False rand req) = List.map_filter convertUnchanged (messages req)"
    by (rule contents_unchanged) simp
next
  assume "\<forall>msg\<in>set (messages req). role msg \<noteq> js ''user''"
  then show "contents (convertOpenAItoGemini True rand req) = List.map_filter convertUnchanged (messages req)"
    by (intro contents_unchanged) simp
next
  assume "messages req = pre @ m # post \<and> (\<forall>p\<in>set pre. role p \<noteq> js ''user'') \<and> role m = js ''user''"
  then show "contents (convertOpenAItoGemini True rand req)
            = List.map_filter convertUnchanged pre
              @ [\<lparr>gemini_role = js ''user'',
                  gemini_text = content m @ js '' ['' @ generateDisguiseString rand @ js '']''\<rparr>]
              @ List.map_filter convertUnchanged post"
    using contents_first_user [of req pre m post rand] by blast
next
  assume r: "\<forall>i<6. 0 \<le> rand i \<and> rand i < 62"
  show "length (generateDisguiseString rand) = 6"
    using r by (rule generateDisguiseString_length)
  show "length (content m @ js '' ['' @ generateDisguiseString rand @ js '']'') = length (content m) + 9"
    using generateDisguiseString_length [OF r] by (simp add: js_def)
next
  assume "msgs \<noteq> [] \<and> role (last msgs) = js ''user''"
  then show "enhanceMessages stamp msgs
              = butlast msgs @ [(last msgs)\<lparr>content := content (last msgs) @ requestTag stamp\<rparr>]"
    by (simp add: enhanceMessages_last_user)
  show "length (requestTag stamp) = 14 + length stamp" by (rule requestTag_length)
next
  assume "msgs = [] \<or> role (last msgs) \<noteq> js ''user''"
  then show "enhanceMessages stamp msgs = msgs" by (rule enhanceMessages_other)
next
  show "edgeRequest disguiseEnabled rand stamp req
       = convertOpenAItoGemini disguiseEnabled rand (req\<lparr>messages := enhanceMessages stamp (messages req)\<rparr>)"
    by (simp add: edgeRequest_def)
qed

lemma example_token: "generateDisguiseString (\<lambda>i. int i) = js ''ABCDEF''"
proof -
  have u: "[0..<6] = [0, 1, 2, 3, 4, 5::nat]" by (simp add: upt_rec)
  show ?thesis
    by (simp add: generateDisguiseString_def u charAt_def disguise_chars_def js_def)
qed

lemma example_unchanged:
  "convertUnchanged \<lparr>role = js ''system'', content = js ''s''\<rparr>
     = Some \<lparr>gemini_role = js ''user'', gemini_text = js ''System: s''\<rparr>"
  "convertUnchanged \<lparr>role = js ''user'', content = js ''yo''\<rparr>
     = Some \<lparr>gemini_role = js ''user'', gemini_text = js ''yo''\<rparr>"
  by (simp_all add: convertUnchanged_def js_def)

theorem C8_disguise_witness:
  "contents (convertOpenAItoGemini True (\<lambda>i. int i) three_messages)
     = [\<lparr>gemini_role = js ''user'', gemini_text = js ''System: s''\<rparr>,
        \<lparr>gemini_role = js ''user'', gemini_text = js ''hi [ABCDEF]''\<rparr>,
        \<lparr>gemini_role = js ''user'', gemini_text = js ''yo''\<rparr>]
   \<and> length (js ''hi [ABCDEF]'') = length (js ''hi'') + 9
   \<and> contents (convertOpenAItoGemini True (\<lambda>i. int i) system_only)
     = [\<lparr>gemini_role = js ''user'', gemini_text = js ''System: s''\<rparr>]
   \<and> enhanceMessages (js ''1_a'') (messages three_messages)
     = [\<lparr>role = js ''system'', content = js ''s''\<rparr>, \<lparr>role = js ''user'', content = js ''hi''\<rparr>,
        \<lparr>role = js ''user'', content = js ''yo'' @ requestTag (js ''1_a'')\<rparr>]
   \<and> enhanceMessages (js ''1_a'') (messages system_only) = messages system_only"
proof -
  have cat: "js ''hi'' @ js '' ['' @ js ''ABCDEF'' @ js '']'' = js ''hi [ABCDEF]''"
    by (simp add: js_def)
  have roles: "js ''system'' \<noteq> js ''user''" by (simp add: js_def)
  have a: "contents (convertOpenAItoGemini True (\<lambda>i. int i) three_messages)
     = [\<lparr>gemini_role = js ''user'', gemini_text = js ''System: s''\<rparr>,
        \<lparr>gemini_role = js ''user'', gemini_text = js ''hi [ABCDEF]''\<rparr>,
        \<lparr>gemini_role = js ''user'', gemini_text = js ''yo''\<rparr>]"
    using C8_disguise [where req = three_messages and rand = "\<lambda>i. int i"
        and pre = "[\<lparr>role = js ''system'', content = js ''s''\<rparr>]"
        and m = "\<lparr>role = js ''user'', content = js ''hi''\<rparr>"
        and post = "[\<lparr>role = js ''user'', content = js ''yo''\<rparr>]"] roles
    by (simp add: three_messages_def example_token example_unchanged cat)
  have b: "length (js ''hi [ABCDEF]'') = length (js ''hi'') + 9"
    using C8_disguise [where rand = "\<lambda>i. int i" and m = "\<lparr>role = js ''user'', content = js ''hi''\<rparr>"]
    by (simp add: example_token cat)
  have c: "contents (convertOpenAItoGemini True (\<lambda>i. int i) system_only)
     = [\<lparr>gemini_role = js ''user'', gemini_text = js ''System: s''\<rparr>]"
    using C8_disguise [where req = system_only and rand = "\<lambda>i. int i"] roles
    by (simp add: system_only_def example_unchanged)
  have d: "enhanceMessages (js ''1_a'') (messages three_messages)
     = [\<lparr>role = js ''system'', content = js ''s''\<rparr>, \<lparr>role = js ''user'', content = js ''hi''\<rparr>,
        \<lparr>role = js ''user'', content = js ''yo'' @ requestTag (js ''1_a'')\<rparr>]"
    using C8_disguise [where msgs = "messages three_messages" and stamp = "js ''1_a''"]
    by (simp add: three_messages_def)
  have e: "enhanceMessages (js ''1_a'') (messages system_only) = messages system_only"
    using C8_disguise [where msgs = "messages system_only" and stamp = "js ''1_a''"] roles
    by (simp add: system_only_def)
  show ?thesis using a b c d e by simp
qed

text \<open>
  The claim as stated fails twice. In the edge handler with the feature disabled, the
  last user message is still changed (the request tag). With the feature enabled and no
  message of role \<open>user\<close>, no message is changed rather than exactly one.
\<close>

theorem C8_counterexample:
  "contents (edgeRequest False (\<lambda>i. 0) (js ''1_a'') example_request)
     = [\<lparr>gemini_role = js ''user'', gemini_text = js ''hi'' @ requestTag (js ''1_a'')\<rparr>]
   \<and> js ''hi'' @ requestTag (js ''1_a'') \<noteq> js ''hi''
   \<and> contents (convertOpenAItoGemini True (\<lambda>i. 0) system_only)
     = [\<lparr>gemini_role = js ''user'', gemini_text = js ''System: s''\<rparr>]"
proof -
  have roles: "js ''system'' \<noteq> js ''user''" "js ''user'' \<noteq> js ''system''" by (simp_all add: js_def)
  have a: "contents (edgeRequest False (\<lambda>i. 0) (js ''1_a'') example_request)
     = [\<lparr>gemini_role = js ''user'', gemini_text = js ''hi'' @ requestTag (js ''1_a'')\<rparr>]"
    using roles
    by (simp add: edgeRequest_def contents_unchanged example_request_def enhanceMessages_def
        convertUnchanged_def)
  have b: "js ''hi'' @ requestTag (js ''1_a'') \<noteq> js ''hi''"
    by (simp add: requestTag_def)
  have c: "contents (convertOpenAItoGemini True (\<lambda>i. 0) system_only)
     = [\<lparr>gemini_role = js ''user'', gemini_text = js ''System: s''\<rparr>]"
    using roles by (simp add: contents_unchanged system_only_def example_unchanged)
  show ?thesis using a b c by simp
qed

subsection \<open>Fake-stream chunking\<close>

lemma ascii_not_low: "\<not> 127 < c \<Longrightarrow> \<not> isLowSurrogate c"
  by (auto simp: isLowSurrogate_def word_le_nat_alt word_less_nat_alt)

lemma separator_not_high: "isSeparator c \<Longrightarrow> \<not> isHighSurrogate c"
  by (auto simp: isSeparator_def isWhiteSpace_def isHighSurrogate_def word_le_nat_alt)

lemma scanBack_le: "scanBack fullText currentIndex e \<le> e"
  by (induction e) (auto simp: le_SucI)

lemma scanBack_ge: "currentIndex \<le> e \<Longrightarrow> currentIndex \<le> scanBack fullText currentIndex e"
  by (induction e) auto

lemma scanBack_stop:
  "currentIndex < scanBack fullText currentIndex e \<Longrightarrow> scanBack fullText currentIndex e < length fullText
   \<Longrightarrow> \<not> 127 < fullText ! scanBack fullText currentIndex e
       \<or> isSeparator (fullText ! scanBack fullText currentIndex e)"
  by (induction e) (auto split: if_splits)

lemma nextEndIndex_cases:
  assumes "e = min (currentIndex + chunkSize) (length fullText)" and "r = scanBack fullText currentIndex e"
  shows "nextEndIndex fullText chunkSize currentIndex =
         (if e < length fullText then
            (if 127 < fullText ! e then (if currentIndex < r \<and> isSeparator (fullText ! r) then r + 1 else r)
             else e)
          else e)"
  by (simp only: nextEndIndex_def assms Let_def)

lemma nextEndIndex_bounds:
  assumes "currentIndex \<le> length fullText"
  shows "currentIndex \<le> nextEndIndex fullText chunkSize currentIndex
         \<and> nextEndIndex fullText chunkSize currentIndex \<le> length fullText"
proof -
  define e where "e = min (currentIndex + chunkSize) (length fullText)"
  define r where "r = scanBack fullText currentIndex e"
  have e: "currentIndex \<le> e" "e \<le> length fullText" using assms by (simp_all add: e_def)
  have r1: "currentIndex \<le> r" unfolding r_def using e(1) by (rule scanBack_ge)
  have r2: "r \<le> e" unfolding r_def by (rule scanBack_le)
  show ?thesis
    using e r1 r2 by (auto simp: nextEndIndex_cases [OF e_def r_def])
qed

lemma nextEndIndex_safe:
  assumes "currentIndex \<le> length fullText" and "\<not> splitsCharacter fullText currentIndex"
  shows "\<not> splitsCharacter fullText (nextEndIndex fullText chunkSize currentIndex)"
proof -
  define e where "e = min (currentIndex + chunkSize) (length fullText)"
  define r where "r = scanBack fullText currentIndex e"
  note n = nextEndIndex_cases [OF e_def r_def]
  have e: "currentIndex \<le> e" "e \<le> length fullText" using assms(1) by (simp_all add: e_def)
  have r1: "currentIndex \<le> r" unfolding r_def using e(1) by (rule scanBack_ge)
  have r2: "r \<le> e" unfolding r_def by (rule scanBack_le)
  show ?thesis
  proof (cases "e < length fullText")
    case False
    then have "nextEndIndex fullText chunkSize currentIndex = length fullText"
      using e(2) by (simp add: n)
    then show ?thesis by (simp add: splitsCharacter_def)
  next
    case lt: True
    show ?thesis
    proof (cases "127 < fullText ! e")
      case False
      then show ?thesis
        using lt by (simp add: n splitsCharacter_def ascii_not_low)
    next
      case True
      show ?thesis
      proof (cases "currentIndex < r \<and> isSeparator (fullText ! r)")
        case sep: True
        then show ?thesis
          using lt True by (simp add: n splitsCharacter_def separator_not_high)
      next
        case nosep: False
        then have m: "nextEndIndex fullText chunkSize currentIndex = r"
          using lt True by (simp only: n if_True if_False)
        show ?thesis
        proof (cases "currentIndex < r")
          case False
          then have "r = currentIndex" using r1 by simp
          then show ?thesis using assms(2) m by simp
        next
          case gt: True
          then have ns: "\<not> isSeparator (fullText ! r)" using nosep by simp
          have "r < length fullText" using r2 lt by simp
          then have "\<not> 127 < fullText ! r"
            using scanBack_stop [of currentIndex fullText e] gt ns unfolding r_def by blast
          then show ?thesis by (simp add: m splitsCharacter_def ascii_not_low)
        qed
      qed
    qed
  qed
qed

lemma slice_then_drop:
  "i \<le> e \<Longrightarrow> js_slice s i e @ drop e s = drop i s"
proof -
  assume "i \<le> e"
  then have "drop e s = drop (e - i) (drop i s)" by simp
  then show ?thesis by (simp add: js_slice_def del: drop_drop)
qed

lemma fakeStreamLoop_cuts:
  assumes "fakeStreamLoop fuel fullText chunkSize currentIndex = Some cuts"
    and "currentIndex \<le> length fullText" and "\<not> splitsCharacter fullText currentIndex"
  shows "concat (map snd cuts) = drop currentIndex fullText
         \<and> (\<forall>(endIndex, chunkText)\<in>set cuts. \<not> splitsCharacter fullText endIndex
               \<and> endIndex \<le> length fullText)"
  using assms
proof (induction fuel arbitrary: currentIndex cuts)
  case 0
  then show ?case by simp
next
  case (Suc fuel)
  show ?case
  proof (cases "currentIndex < length fullText")
    case False
    then show ?thesis using Suc.prems by simp
  next
    case True
    let ?e = "nextEndIndex fullText chunkSize currentIndex"
    from Suc.prems(1) True obtain rest where
      rest: "fakeStreamLoop fuel fullText chunkSize ?e = Some rest"
      and cuts: "cuts = (?e, js_slice fullText currentIndex ?e) # rest"
      by (auto simp: Let_def)
    have b: "currentIndex \<le> ?e" "?e \<le> length fullText"
      using nextEndIndex_bounds [OF Suc.prems(2)] by simp_all
    have s: "\<not> splitsCharacter fullText ?e"
      using Suc.prems(2,3) by (rule nextEndIndex_safe)
    have ih: "concat (map snd rest) = drop ?e fullText
         \<and> (\<forall>(endIndex, chunkText)\<in>set rest. \<not> splitsCharacter fullText endIndex
               \<and> endIndex \<le> length fullText)"
      using Suc.IH [OF rest b(2) s] .
    show ?thesis
      using ih b s by (simp add: cuts slice_then_drop)
  qed
qed

lemma sendChunk_concat: "concat (sendChunk fullText currentIndex) = drop currentIndex fullText"
proof (induction fullText currentIndex rule: sendChunk.induct)
  case (1 fullText currentIndex)
  show ?case
  proof (cases "currentIndex < length fullText")
    case False
    then show ?thesis by (simp add: sendChunk.simps)
  next
    case True
    have "concat (sendChunk fullText currentIndex)
          = js_slice fullText currentIndex (currentIndex + chunkSize_old)
            @ concat (sendChunk fullText (currentIndex + chunkSize_old))"
      using True by (subst sendChunk.simps) (simp add: Let_def)
    also have "\<dots> = js_slice fullText currentIndex (currentIndex + chunkSize_old)
                     @ drop (currentIndex + chunkSize_old) fullText"
      using "1.IH" [OF True refl] by simp
    also have "\<dots> = drop currentIndex fullText"
      by (rule slice_then_drop) simp
    finally show ?thesis .
  qed
qed

lemma ascii_terminates:
  assumes "\<forall>c\<in>set fullText. \<not> 127 < c" and "0 < chunkSize"
    and "length fullText - currentIndex < fuel"
  shows "fakeStreamLoop fuel fullText chunkSize currentIndex \<noteq> None"
  using assms(3)
proof (induction fuel arbitrary: currentIndex)
  case 0
  then show ?case by simp
next
  case (Suc fuel)
  show ?case
  proof (cases "currentIndex < length fullText")
    case False
    then show ?thesis by simp
  next
    case True
    define e where "e = min (currentIndex + chunkSize) (length fullText)"
    define r where "r = scanBack fullText currentIndex e"
    have "e < length fullText \<Longrightarrow> \<not> 127 < fullText ! e"
      using assms(1) by simp
    then have n: "nextEndIndex fullText chunkSize currentIndex = e"
      by (auto simp: nextEndIndex_cases [OF e_def r_def])
    have "length fullText - e < fuel"
      using Suc.prems True assms(2) by (auto simp: e_def)
    then have "fakeStreamLoop fuel fullText chunkSize e \<noteq> None"
      by (rule Suc.IH)
    then show ?thesis using True by (auto simp: n Let_def)
  qed
qed

text \<open>
  Where the loop of the current variant does not advance: when the \<open>chunkSize\<close> code units
  after \<open>currentIndex\<close> are all outside ASCII and none is a separator, and the text goes
  on after them, \<open>endIndex\<close> is moved back to \<open>currentIndex\<close>, the slice is empty and
  \<open>currentIndex\<close> stays where it is. The loop then never ends, whatever the fuel.
\<close>

lemma scanBack_run:
  assumes "\<forall>j. currentIndex < j \<and> j \<le> e \<longrightarrow>
             j < length fullText \<and> 127 < fullText ! j \<and> \<not> isSeparator (fullText ! j)"
  shows "scanBack fullText currentIndex e \<le> currentIndex"
  using assms
proof (induction e)
  case 0
  then show ?case by simp
next
  case (Suc e)
  show ?case
  proof (cases "currentIndex < Suc e")
    case True
    then have "Suc e < length fullText \<and> 127 < fullText ! Suc e \<and> \<not> isSeparator (fullText ! Suc e)"
      using Suc.prems by simp
    moreover have "scanBack fullText currentIndex e \<le> currentIndex"
      using Suc.prems by (intro Suc.IH) simp
    ultimately show ?thesis using True by simp
  next
    case False
    then show ?thesis by simp
  qed
qed

lemma nextEndIndex_stuck:
  assumes "currentIndex + chunkSize < length fullText" and "0 < chunkSize"
    and "\<forall>j. currentIndex < j \<and> j \<le> currentIndex + chunkSize \<longrightarrow>
           127 < fullText ! j \<and> \<not> isSeparator (fullText ! j)"
  shows "nextEndIndex fullText chunkSize currentIndex = currentIndex"
proof -
  define e where "e = min (currentIndex + chunkSize) (length fullText)"
  define r where "r = scanBack fullText currentIndex e"
  have e: "e = currentIndex + chunkSize" using assms(1) by (simp add: e_def)
  have lt: "e < length fullText" using assms(1) e by simp
  have big: "127 < fullText ! e" using assms(2,3) e by simp
  have "r \<le> currentIndex"
    unfolding r_def using assms(1,3) e by (intro scanBack_run) simp
  moreover have "currentIndex \<le> r"
    unfolding r_def using e by (intro scanBack_ge) simp
  ultimately have r: "r = currentIndex" by simp
  show ?thesis
    using lt big r by (simp add: nextEndIndex_cases [OF e_def r_def])
qed

lemma fakeStreamLoop_stuck:
  assumes "currentIndex + chunkSize < length fullText" and "0 < chunkSize"
    and "\<forall>j. currentIndex < j \<and> j \<le> currentIndex + chunkSize \<longrightarrow>
           127 < fullText ! j \<and> \<not> isSeparator (fullText ! j)"
  shows "fakeStreamLoop fuel fullText chunkSize currentIndex = None"
proof (induction fuel)
  case 0
  then show ?case by simp
next
  case (Suc fuel)
  have "currentIndex < length fullText" using assms(1) by simp
  then show ?case
    using Suc nextEndIndex_stuck [OF assms] by (simp add: Let_def)
qed

lemma stuck_endIndex: "nextEndIndex cjk_run (chunkSizeFor cjk_run) 0 = 0"
  by code_simp

lemma stuck_forever: "fakeStreamChunks fuel cjk_run = None"
proof -
  have len: "cjk_run \<noteq> []" by (simp add: cjk_run_def)
  have "fakeStreamLoop fuel cjk_run (chunkSizeFor cjk_run) 0 = None"
    by (induction fuel) (simp_all add: stuck_endIndex Let_def len)
  then show ?thesis by (simp add: fakeStreamChunks_def)
qed


text \<open>So it is on every run of sixteen or more CJK characters.\<close>

lemma cjk_runs_stuck:
  assumes "16 \<le> n"
  shows "fakeStreamChunks fuel (replicate n 0x4E2D) = None"
proof -
  let ?text = "replicate n (0x4E2D :: 16 word)"
  have size: "0 + chunkSizeFor ?text < length ?text" "0 < chunkSizeFor ?text"
    using assms by (simp_all add: chunkSizeFor_def)
  have unit: "127 < (0x4E2D :: 16 word)" "\<not> isSeparator (0x4E2D :: 16 word)"
    by (simp_all add: isSeparator_def isWhiteSpace_def)
  have run: "\<forall>j. 0 < j \<and> j \<le> 0 + chunkSizeFor ?text \<longrightarrow>
               127 < ?text ! j \<and> \<not> isSeparator (?text ! j)"
    using size(1) unit by simp
  have "fakeStreamLoop fuel ?text (chunkSizeFor ?text) 0 = None"
    using size run by (rule fakeStreamLoop_stuck)
  then show ?thesis by (simp add: fakeStreamChunks_def)
qed

text \<open>
  Claim C5 at its failing inputs. On sixteen CJK characters the current variant never
  emits a chunk nor the end of the stream. On fifteen letters and a space it cuts the
  space as a last slice and does not emit it: the emitted chunks fall short of the text.
  The earlier variant cuts between the two code units of a character outside the basic
  plane.
\<close>

theorem C5_chunking_at_failing_inputs:
  "fakeStreamChunks fuel cjk_run = None
   \<and> fakeStreamChunks 5 letters_and_space = Some [replicate 15 0x61]
   \<and> concat [replicate 15 0x61] \<noteq> letters_and_space
   \<and> sendChunk letters_and_pair 0 = [[0x61, 0x61, 0xD83D], [0xDE00]]
   \<and> splitsCharacter letters_and_pair 3"
proof -
  have "fakeStreamChunks 5 letters_and_space = Some [replicate 15 0x61]
     \<and> concat [replicate 15 0x61] \<noteq> letters_and_space
     \<and> sendChunk letters_and_pair 0 = [[0x61, 0x61, 0xD83D], [0xDE00]]
     \<and> splitsCharacter letters_and_pair 3"
    by code_simp
  then show ?thesis by (simp add: stuck_forever)
qed

end
